theory Spec2Isabelle
  imports Complex_Main "HOL-Library.Multiset" "HOL-Library.Char_ord" "HOL-Library.List_Lexorder"
begin

section \<open>Project Rail Tabs: the classification and context engine\<close>

text \<open>
  A shallow embedding of the tab classifier: the tokenizer and the centroid model
  (utils/tokens.ts), the URL helpers (utils/url.ts), the matcher (classifier/matcher.ts),
  the context tracker (classifier/context.ts) and the assignment procedure (core.ts).

  Conventions of the embedding.
  \<^item> A JavaScript \<open>number\<close> that carries a score or a weight is a \<^typ>\<open>real\<close>. The
    arithmetic of utils/tokens.ts is that of IEEE doubles: each operation there is the
    exact operation followed by the rounding \<open>fl\<close> to the nearest double (53 significant
    bits, ties to even, gradual underflow). A result beyond the largest double, which the
    program turns into \<open>Infinity\<close>, is outside the model: the theorems on rounded values
    bound their inputs so that none arises. The sums of the matcher and of the context
    tracker are taken exactly; the theorems about them state which terms are added and
    how the totals are compared. Timestamps and durations in milliseconds, and
    identifiers of tabs and windows, are \<^typ>\<open>int\<close>.
  \<^item> A string is a \<^typ>\<open>string\<close>; an optional field is an \<^typ>\<open>'a option\<close>; an optional
    string is truthy when it is present and not empty.
  \<^item> A \<open>Map<string, number>\<close> is an association list in insertion order, as the
    iteration of a JavaScript Map goes; its keys are distinct.
  \<^item> \<open>Date.now()\<close> is the argument \<open>now\<close> of every function that reads the clock: one
    reading for each call of the function.
  \<^item> Each record field carries a short prefix for its interface (\<open>tab_\<close>, \<open>proj_\<close>,
    \<open>sub_\<close>, \<open>sig_\<close>, \<open>cen_\<close>, \<open>rule_\<close>, \<open>ctx_\<close>, \<open>rt_\<close>, \<open>res_\<close>, \<open>bd_\<close>, \<open>asg_\<close>), since
    the interfaces of types.ts share field names.
\<close>

subsection \<open>Strings and arrays of JavaScript\<close>

text \<open>\<open>s.split(c)\<close> for a one-character separator: the empty string gives one empty piece.\<close>

fun split_on :: "char \<Rightarrow> string \<Rightarrow> string list" where
  "split_on c [] = [[]]"
| "split_on c (x # xs) =
     (if x = c then [] # split_on c xs
      else (case split_on c xs of [] \<Rightarrow> [[x]] | w # ws \<Rightarrow> (x # w) # ws))"

text \<open>\<open>xs.join(sep)\<close>.\<close>

fun join :: "string \<Rightarrow> string list \<Rightarrow> string" where
  "join sep [] = []"
| "join sep [x] = x"
| "join sep (x # y # ys) = x @ sep @ join sep (y # ys)"

text \<open>\<open>xs.slice(-2)\<close>: the last two elements, or all of a shorter array.\<close>

definition slice_last2 :: "'a list \<Rightarrow> 'a list" where
  "slice_last2 xs = drop (length xs - 2) xs"

text \<open>\<open>s.startsWith(p)\<close>.\<close>

definition startsWith :: "string \<Rightarrow> string \<Rightarrow> bool" where
  "startsWith s p = (take (length p) s = p)"

text \<open>\<open>xs.find(P)\<close>: the first element that satisfies \<open>P\<close>, or undefined.\<close>

fun find_first :: "('a \<Rightarrow> bool) \<Rightarrow> 'a list \<Rightarrow> 'a option" where
  "find_first P [] = None"
| "find_first P (x # xs) = (if P x then Some x else find_first P xs)"

text \<open>Truthiness of an optional string: present and not empty.\<close>

fun truthy :: "string option \<Rightarrow> bool" where
  "truthy None = False"
| "truthy (Some s) = (s \<noteq> [])"

text \<open>
  \<open>xs.sort((a, b) => key(b) - key(a))\<close>: a stable sort, descending in the key.
  \<^const>\<open>sort_key\<close> is a stable insertion sort, ascending; the key is negated.
\<close>

definition sort_desc :: "('a \<Rightarrow> 'k::{linorder,uminus}) \<Rightarrow> 'a list \<Rightarrow> 'a list" where
  "sort_desc key xs = sort_key (\<lambda>x. - key x) xs"

subsection \<open>types.ts\<close>

record TokenCentroid =
  cen_tokens :: "(string \<times> real) list"
  cen_totalWeight :: real

record PageSignals =
  ps_h1 :: "string option"
  ps_metaDescription :: "string option"
  ps_ogTitle :: "string option"
  ps_extractedAt :: int

record TabMeta =
  tab_tabId :: int
  tab_windowId :: int
  tab_url :: string
  tab_title :: string
  tab_host :: string
  tab_pathTokens :: "string list"
  tab_queryKeys :: "string list"
  tab_pageSignals :: "PageSignals option"
  tab_createdAt :: int
  tab_lastActiveAt :: int
  tab_activeScore :: int
  tab_projectId :: "string option"
  tab_subprojectId :: "string option"
  tab_featuresHash :: string
  tab_embeddingId :: "string option"
  tab_openerTabId :: "int option"
  tab_manuallyAssigned :: "bool option"

datatype RuleType = Domain | Host | PathPrefix | KeywordInclude | KeywordExclude

record ProjectRule =
  rule_type :: RuleType
  rule_value :: string
  rule_weight :: real

record SubprojectSignature =
  sig_host :: string
  sig_pathPrefix :: string
  sig_tokenCentroid :: TokenCentroid

record Subproject =
  sub_subprojectId :: string
  sub_name :: string
  sub_signature :: SubprojectSignature
  sub_rules :: "ProjectRule list"
  sub_createdAt :: int
  sub_lastActiveAt :: int

record Project =
  proj_projectId :: string
  proj_name :: string
  proj_color :: string
  proj_pinned :: bool
  proj_createdAt :: int
  proj_lastActiveAt :: int
  proj_activeScore :: int
  proj_centroid :: TokenCentroid
  proj_rules :: "ProjectRule list"
  proj_subprojects :: "Subproject list"
  proj_locked :: "bool option"

record RecentTabActivity =
  rt_tabId :: int
  rt_projectId :: "string option"
  rt_subprojectId :: "string option"
  rt_lastActiveAt :: int
  rt_dwellTime :: int
  rt_weight :: real

record ActiveContext =
  ctx_windowId :: int
  ctx_activeProjectId :: "string option"
  ctx_activeSubprojectId :: "string option"
  ctx_recentTabs :: "RecentTabActivity list"
  ctx_computedAt :: int

datatype Method = Deterministic | Semantic | Context | Manual | Default

record TabAssignment =
  asg_tabId :: int
  asg_projectId :: string
  asg_subprojectId :: "string option"
  asg_confidence :: real
  asg_method :: Method

record Breakdown =
  bd_hostMatch :: real
  bd_pathMatch :: real
  bd_tokenSimilarity :: real
  bd_chainProximity :: real
  bd_recencyBoost :: real

record ScoringResult =
  res_projectId :: string
  res_subprojectId :: "string option"
  res_score :: real
  res_breakdown :: Breakdown

subsection \<open>Numbers of JavaScript\<close>

text \<open>
  The rounding of a real number to the nearest double. \<open>round_even\<close> rounds to the nearest
  integer, a tie to the even one. A double is an integer of magnitude below \<open>2^53\<close> times a
  power of two whose exponent is at least -1074; \<open>fl x\<close> scales \<open>x\<close> by the exponent of its
  binade, the smallest exponent for a subnormal number, and rounds the quotient.
\<close>

definition round_even :: "real \<Rightarrow> int" where
  "round_even y =
     (let f = \<lfloor>y\<rfloor> in
        if y - of_int f < 1 / 2 then f
        else if 1 / 2 < y - of_int f then f + 1
        else if even f then f else f + 1)"

definition fl :: "real \<Rightarrow> real" where
  "fl x =
     (if x = 0 then 0
      else let e = max (\<lfloor>log 2 \<bar>x\<bar>\<rfloor> - 52) (- 1074)
           in of_int (round_even (x / 2 powi e)) * 2 powi e)"

subsection \<open>utils/tokens.ts\<close>

definition STOP_WORDS :: "string list" where
  "STOP_WORDS =
    [''the'', ''a'', ''an'', ''and'', ''or'', ''but'', ''in'', ''on'', ''at'', ''to'', ''for'',
     ''of'', ''with'', ''by'', ''from'', ''as'', ''is'', ''was'', ''are'', ''been'', ''be'',
     ''have'', ''has'', ''had'', ''do'', ''does'', ''did'', ''will'', ''would'', ''should'',
     ''can'', ''could'', ''may'', ''might'', ''must'', ''that'', ''this'', ''these'', ''those'']"

text \<open>
  Characters are the 8-bit characters of \<^typ>\<open>string\<close>. \<open>toLowerCase\<close> maps the letters
  A to Z; \<open>\w\<close> is a letter, a digit or the underscore; \<open>\s\<close> is a tab, a line feed, a
  vertical tab, a form feed, a carriage return, a space or a no-break space.
\<close>

definition toLowerChar :: "char \<Rightarrow> char" where
  "toLowerChar c =
     (let n = of_char c :: nat in if 65 \<le> n \<and> n \<le> 90 then char_of (n + 32) else c)"

definition isWordChar :: "char \<Rightarrow> bool" where
  "isWordChar c =
     (let n = of_char c :: nat in
        (48 \<le> n \<and> n \<le> 57) \<or> (65 \<le> n \<and> n \<le> 90) \<or> (97 \<le> n \<and> n \<le> 122) \<or> n = 95)"

definition isSpaceChar :: "char \<Rightarrow> bool" where
  "isSpaceChar c = (let n = of_char c :: nat in (9 \<le> n \<and> n \<le> 13) \<or> n = 32 \<or> n = 160)"

text \<open>\<open>s.split(/[\s-]+/)\<close>: the pieces between maximal runs of separators.\<close>

function split_runs :: "(char \<Rightarrow> bool) \<Rightarrow> string \<Rightarrow> string list" where
  "split_runs sep [] = [[]]"
| "split_runs sep (x # xs) =
     (if sep x then [] # split_runs sep (dropWhile sep xs)
      else (case split_runs sep xs of [] \<Rightarrow> [[x]] | w # ws \<Rightarrow> (x # w) # ws))"
  by pat_completeness auto
termination
  by (relation "measure (\<lambda>(sep, s). length s)")
     (auto simp: less_Suc_eq_le length_dropWhile_le)

definition extractTokens :: "string \<Rightarrow> string list" where
  "extractTokens text =
     filter (\<lambda>token. length token > 2 \<and> token \<notin> set STOP_WORDS)
       (split_runs (\<lambda>c. isSpaceChar c \<or> c = CHR ''-'')
          (map (\<lambda>c. if isWordChar c \<or> isSpaceChar c \<or> c = CHR ''-'' then c else CHR '' '')
             (map toLowerChar text)))"

text \<open>The argument of tokenize; its \<open>url\<close> field is never read and is left out.\<close>

record TokenizeInput =
  in_title :: "string option"
  in_h1 :: "string option"
  in_meta :: "string option"
  in_host :: "string option"
  in_pathTokens :: "string list option"

definition tokenize :: "TokenizeInput \<Rightarrow> string list" where
  "tokenize input =
     (if truthy (in_host input)
        then filter (\<lambda>t. length t > 2) (split_on CHR ''.'' (the (in_host input))) else [])
     @ (case in_pathTokens input of None \<Rightarrow> [] | Some pts \<Rightarrow> concat (map extractTokens pts))
     @ (if truthy (in_title input) then extractTokens (the (in_title input)) else [])
     @ (if truthy (in_h1 input) then extractTokens (the (in_h1 input)) else [])
     @ (if truthy (in_meta input) then extractTokens (the (in_meta input)) else [])"

text \<open>\<open>map.get(k) || 0\<close>: the stored weight, 0 for a key that is absent.\<close>

definition get_or_zero :: "(string \<times> real) list \<Rightarrow> string \<Rightarrow> real" where
  "get_or_zero m k = (case map_of m k of None \<Rightarrow> 0 | Some w \<Rightarrow> w)"

text \<open>\<open>map.set(k, v)\<close>: a present key keeps its place, a new key goes last.\<close>

fun map_set :: "'k \<Rightarrow> 'v \<Rightarrow> ('k \<times> 'v) list \<Rightarrow> ('k \<times> 'v) list" where
  "map_set k v [] = [(k, v)]"
| "map_set k v (p # ps) = (if fst p = k then (k, v) # ps else p # map_set k v ps)"

text \<open>The loop body of createCentroid and updateCentroid, over the tokens of one list.\<close>

definition add_tokens :: "real \<Rightarrow> string list \<Rightarrow> (string \<times> real) list \<Rightarrow> (string \<times> real) list" where
  "add_tokens weight toks m =
     foldl (\<lambda>acc token. map_set token (fl (get_or_zero acc token + weight)) acc) m toks"

definition weight_at :: "real list option \<Rightarrow> nat \<Rightarrow> real" where
  "weight_at weights idx =
     (case weights of None \<Rightarrow> 1 | Some ws \<Rightarrow> if idx < length ws then ws ! idx else 1)"

fun createCentroid_loop ::
  "real list option \<Rightarrow> nat \<Rightarrow> string list list \<Rightarrow> TokenCentroid \<Rightarrow> TokenCentroid" where
  "createCentroid_loop weights idx [] acc = acc"
| "createCentroid_loop weights idx (toks # rest) acc =
     createCentroid_loop weights (Suc idx) rest
       \<lparr>cen_tokens = add_tokens (weight_at weights idx) toks (cen_tokens acc),
        cen_totalWeight =
          foldl (\<lambda>totalWeight token. fl (totalWeight + weight_at weights idx))
            (cen_totalWeight acc) toks\<rparr>"

definition createCentroid :: "string list list \<Rightarrow> real list option \<Rightarrow> TokenCentroid" where
  "createCentroid tokenArrays weights =
     createCentroid_loop weights 0 tokenArrays \<lparr>cen_tokens = [], cen_totalWeight = 0\<rparr>"

definition updateCentroid :: "TokenCentroid \<Rightarrow> string list \<Rightarrow> real \<Rightarrow> TokenCentroid" where
  "updateCentroid centroid toks weight =
     \<lparr>cen_tokens = add_tokens weight toks (cen_tokens centroid),
      cen_totalWeight = fl (cen_totalWeight centroid + fl (weight * real (length toks)))\<rparr>"

definition cosineSimilarity :: "TokenCentroid \<Rightarrow> string list \<Rightarrow> real" where
  "cosineSimilarity centroid toks =
     (if length (cen_tokens centroid) = 0 \<or> length toks = 0 then 0
      else
        let dotProduct =
              foldl (\<lambda>dot (token, weight). if token \<in> set toks then fl (dot + weight) else dot)
                0 (cen_tokens centroid);
            sumSquares =
              foldl (\<lambda>mag (token, weight). fl (mag + fl (weight * weight)))
                0 (cen_tokens centroid);
            tokenMag = fl (sqrt (real (length toks)));
            centroidMag = fl (sqrt sumSquares)
        in if centroidMag = 0 \<or> tokenMag = 0 then 0
           else fl (dotProduct / fl (centroidMag * tokenMag)))"

definition jaccardSimilarity :: "TokenCentroid \<Rightarrow> string list \<Rightarrow> real" where
  "jaccardSimilarity centroid toks =
     (if length (cen_tokens centroid) = 0 \<or> length toks = 0 then 0
      else
        let intersection = length (filter (\<lambda>token. token \<in> set toks) (map fst (cen_tokens centroid)));
            union = int (length (cen_tokens centroid)) + int (length (remdups toks)) - int intersection
        in if union = 0 then 0 else fl (real intersection / real_of_int union))"

definition weightedTokenSimilarity :: "TokenCentroid \<Rightarrow> string list \<Rightarrow> real" where
  "weightedTokenSimilarity centroid toks =
     fl (fl (fl 0.6 * cosineSimilarity centroid toks) + fl (fl 0.4 * jaccardSimilarity centroid toks))"

subsection \<open>utils/url.ts\<close>

definition getPathPrefix :: "string list \<Rightarrow> nat \<Rightarrow> string" where
  "getPathPrefix pathTokens depth = join ''/'' (take depth pathTokens)"

definition createSubprojectKey :: "string \<Rightarrow> string list \<Rightarrow> nat \<Rightarrow> string" where
  "createSubprojectKey host pathTokens depth = host @ '':'' @ getPathPrefix pathTokens depth"

subsection \<open>classifier/matcher.ts\<close>

record MatcherConfig =
  cfg_hostMatchWeight :: real
  cfg_pathMatchWeight :: real
  cfg_chainWeight :: real
  cfg_tokenWeight :: real
  cfg_recencyWeight :: real
  cfg_minThreshold :: real

definition DEFAULT_MATCHER_CONFIG :: MatcherConfig where
  "DEFAULT_MATCHER_CONFIG =
     \<lparr>cfg_hostMatchWeight = 3.0, cfg_pathMatchWeight = 2.0, cfg_chainWeight = 2.0,
      cfg_tokenWeight = 1.5, cfg_recencyWeight = 1.0, cfg_minThreshold = 0.3\<rparr>"

text \<open>\<open>tab.host.split('.').slice(-2).join('.')\<close>.\<close>

definition tabDomain :: "string \<Rightarrow> string" where
  "tabDomain host = join ''.'' (slice_last2 (split_on CHR ''.'' host))"

text \<open>The first loop of scoreHostMatch: the first rule that matches decides.\<close>

fun scoreHostMatch_rules :: "TabMeta \<Rightarrow> ProjectRule list \<Rightarrow> real option" where
  "scoreHostMatch_rules tab [] = None"
| "scoreHostMatch_rules tab (rule # rest) =
     (if rule_type rule = Host \<and> tab_host tab = rule_value rule then Some 1.0
      else if rule_type rule = Domain \<and> tabDomain (tab_host tab) = rule_value rule then Some 0.8
      else scoreHostMatch_rules tab rest)"

definition scoreHostMatch :: "TabMeta \<Rightarrow> Project \<Rightarrow> real" where
  "scoreHostMatch tab project =
     (case scoreHostMatch_rules tab (proj_rules project) of
        Some r \<Rightarrow> r
      | None \<Rightarrow>
          if list_ex (\<lambda>subproject. sig_host (sub_signature subproject) = tab_host tab)
               (proj_subprojects project)
          then 0.9 else 0)"

text \<open>\<open>Math.min(1.0, prefix.split('/').length * 0.25)\<close>.\<close>

definition depthScore :: "string \<Rightarrow> real" where
  "depthScore prefix = min 1.0 (real (length (split_on CHR ''/'' prefix)) * 0.25)"

definition scorePathMatch :: "TabMeta \<Rightarrow> Project \<Rightarrow> real" where
  "scorePathMatch tab project =
     (let tabPath = join ''/'' (tab_pathTokens tab);
          afterRules =
            foldl (\<lambda>maxScore rule.
                     if rule_type rule = PathPrefix \<and> startsWith tabPath (rule_value rule)
                     then max maxScore (depthScore (rule_value rule)) else maxScore)
              0 (proj_rules project)
      in foldl (\<lambda>maxScore subproject.
                  if startsWith tabPath (sig_pathPrefix (sub_signature subproject))
                  then max maxScore (depthScore (sig_pathPrefix (sub_signature subproject)))
                  else maxScore)
           afterRules (proj_subprojects project))"

definition scoreTokenSimilarity :: "TabMeta \<Rightarrow> Project \<Rightarrow> real" where
  "scoreTokenSimilarity tab project =
     weightedTokenSimilarity (proj_centroid project)
       (tokenize \<lparr>in_title = Some (tab_title tab),
                  in_h1 = Option.bind (tab_pageSignals tab) ps_h1,
                  in_meta = Option.bind (tab_pageSignals tab) ps_metaDescription,
                  in_host = Some (tab_host tab),
                  in_pathTokens = Some (tab_pathTokens tab)\<rparr>)"

definition scoreChainProximity :: "TabMeta \<Rightarrow> Project \<Rightarrow> ActiveContext option \<Rightarrow> real" where
  "scoreChainProximity tab project ctx =
     (case ctx of
        None \<Rightarrow> 0
      | Some c \<Rightarrow>
          if ctx_activeProjectId c = Some (proj_projectId project) then 1.0
          else (case find_first (\<lambda>rt. rt_projectId rt = Some (proj_projectId project))
                       (ctx_recentTabs c) of
                  Some recentProjectActivity \<Rightarrow> rt_weight recentProjectActivity * 0.8
                | None \<Rightarrow> 0))"

definition scoreRecencyBoost :: "int \<Rightarrow> Project \<Rightarrow> ActiveContext option \<Rightarrow> real" where
  "scoreRecencyBoost now project ctx =
     (case ctx of
        None \<Rightarrow> 0
      | Some c \<Rightarrow>
          if ctx_activeProjectId c = Some (proj_projectId project) then 1.0
          else
            let timeSinceActive = now - proj_lastActiveAt project;
                minutes = real_of_int timeSinceActive / (1000 * 60)
            in if minutes < 5 then 0.9
               else if minutes < 15 then 0.6
               else if minutes < 30 then 0.3
               else 0)"

text \<open>The score of one subproject in the loop of findBestSubproject.\<close>

definition subprojectScore :: "TabMeta \<Rightarrow> string list \<Rightarrow> Subproject \<Rightarrow> real" where
  "subprojectScore tab tabTokens subproject =
     (if sig_host (sub_signature subproject) = tab_host tab then 0.5 else 0)
     + (if startsWith (join ''/'' (tab_pathTokens tab)) (sig_pathPrefix (sub_signature subproject))
        then 0.3 else 0)
     + weightedTokenSimilarity (sig_tokenCentroid (sub_signature subproject)) tabTokens * 0.2"

definition findBestSubproject :: "TabMeta \<Rightarrow> Project \<Rightarrow> Subproject option" where
  "findBestSubproject tab project =
     (case proj_subprojects project of
        [] \<Rightarrow> None
      | first # others \<Rightarrow>
          let subprojectKey = createSubprojectKey (tab_host tab) (tab_pathTokens tab) 2 in
          (case find_first
                  (\<lambda>sp. sig_host (sub_signature sp) @ '':'' @ sig_pathPrefix (sub_signature sp)
                          = subprojectKey)
                  (proj_subprojects project) of
             Some exactMatch \<Rightarrow> Some exactMatch
           | None \<Rightarrow>
               let tabTokens = tokenize \<lparr>in_title = Some (tab_title tab), in_h1 = None,
                                         in_meta = None, in_host = Some (tab_host tab),
                                         in_pathTokens = Some (tab_pathTokens tab)\<rparr>;
                   (bestSubproject, bestScore) =
                     foldl (\<lambda>(bestSubproject, bestScore) subproject.
                              if subprojectScore tab tabTokens subproject > bestScore
                              then (subproject, subprojectScore tab tabTokens subproject)
                              else (bestSubproject, bestScore))
                       (first, - 1) (proj_subprojects project)
               in if bestScore > 0.3 then Some bestSubproject else None))"

definition scoreTabForProject ::
  "MatcherConfig \<Rightarrow> int \<Rightarrow> TabMeta \<Rightarrow> Project \<Rightarrow> ActiveContext option \<Rightarrow> ScoringResult" where
  "scoreTabForProject cfg now tab project ctx =
     (let breakdown =
            \<lparr>bd_hostMatch = scoreHostMatch tab project,
             bd_pathMatch = scorePathMatch tab project,
             bd_tokenSimilarity = scoreTokenSimilarity tab project,
             bd_chainProximity = scoreChainProximity tab project ctx,
             bd_recencyBoost = scoreRecencyBoost now project ctx\<rparr>;
          score =
            cfg_hostMatchWeight cfg * bd_hostMatch breakdown
            + cfg_pathMatchWeight cfg * bd_pathMatch breakdown
            + cfg_tokenWeight cfg * bd_tokenSimilarity breakdown
            + cfg_chainWeight cfg * bd_chainProximity breakdown
            + cfg_recencyWeight cfg * bd_recencyBoost breakdown;
          bestSubproject = findBestSubproject tab project
      in \<lparr>res_projectId = proj_projectId project,
          res_subprojectId = map_option sub_subprojectId bestSubproject,
          res_score = score,
          res_breakdown = breakdown\<rparr>)"

definition scoreAllProjects ::
  "MatcherConfig \<Rightarrow> int \<Rightarrow> TabMeta \<Rightarrow> Project list \<Rightarrow> ActiveContext option \<Rightarrow> ScoringResult list" where
  "scoreAllProjects cfg now tab projects ctx =
     sort_desc res_score
       (filter (\<lambda>result. res_score result \<ge> cfg_minThreshold cfg)
          (map (\<lambda>project. scoreTabForProject cfg now tab project ctx) projects))"

definition narrowCandidates :: "int \<Rightarrow> TabMeta \<Rightarrow> Project list \<Rightarrow> Project list" where
  "narrowCandidates now tab projects =
     (let sameHostProjects =
            filter (\<lambda>p. list_ex (\<lambda>sp. sig_host (sub_signature sp) = tab_host tab) (proj_subprojects p)
                       \<or> list_ex (\<lambda>r. rule_type r = Host \<and> rule_value r = tab_host tab) (proj_rules p))
              projects
      in if length sameHostProjects > 0 then sameHostProjects
         else
           let sameDomainProjects =
                 filter (\<lambda>p. list_ex (\<lambda>r. rule_type r = Domain \<and> rule_value r = tabDomain (tab_host tab))
                                (proj_rules p))
                   projects
           in if length sameDomainProjects > 0 then sameDomainProjects
              else
                let recentProjects =
                      take 15
                        (sort_desc proj_lastActiveAt
                           (filter (\<lambda>p. now - proj_lastActiveAt p < 30 * 60 * 1000) projects))
                in if length recentProjects > 0 then recentProjects else take 20 projects)"

definition getBestMatch ::
  "MatcherConfig \<Rightarrow> int \<Rightarrow> TabMeta \<Rightarrow> Project list \<Rightarrow> ActiveContext option \<Rightarrow> ScoringResult option" where
  "getBestMatch cfg now tab projects ctx =
     (let candidateProjects = narrowCandidates now tab projects;
          results = scoreAllProjects cfg now tab candidateProjects ctx
      in case results of [] \<Rightarrow> None | best # others \<Rightarrow> Some best)"

subsection \<open>storage/db.ts and the module state\<close>

text \<open>
  The state that the engine reads and writes: the two object stores of the database
  (each listed in the order of its key, as \<open>getAll\<close> returns them), the per-window map
  of the context tracker, and the project cache. The cache module (storage/cache.ts) is
  not among the sources; core.ts only calls \<open>set\<close> on it, which is taken to store the
  entry under its key. Requests to the database are taken to succeed.
\<close>

record State =
  db_tabs :: "TabMeta list"
  db_projects :: "Project list"
  activeContexts :: "(int \<times> ActiveContext) list"
  projectCache :: "(string \<times> Project) list"

text \<open>\<open>objectStore.put(record)\<close>: replaces the record with the same key, or inserts in key order.\<close>

fun store_put :: "('a \<Rightarrow> 'k::linorder) \<Rightarrow> 'a \<Rightarrow> 'a list \<Rightarrow> 'a list" where
  "store_put key r [] = [r]"
| "store_put key r (x # xs) =
     (if key x = key r then r # xs
      else if key r < key x then r # x # xs
      else x # store_put key r xs)"

definition putTab :: "TabMeta \<Rightarrow> State \<Rightarrow> State" where
  "putTab tab st = st\<lparr>db_tabs := store_put tab_tabId tab (db_tabs st)\<rparr>"

definition putProject :: "Project \<Rightarrow> State \<Rightarrow> State" where
  "putProject project st = st\<lparr>db_projects := store_put proj_projectId project (db_projects st)\<rparr>"

definition getProject :: "string \<Rightarrow> State \<Rightarrow> Project option" where
  "getProject projectId st = find_first (\<lambda>p. proj_projectId p = projectId) (db_projects st)"

definition getAllProjects :: "State \<Rightarrow> Project list" where
  "getAllProjects st = db_projects st"

definition getTabsByWindow :: "int \<Rightarrow> State \<Rightarrow> TabMeta list" where
  "getTabsByWindow windowId st = filter (\<lambda>tab. tab_windowId tab = windowId) (db_tabs st)"

subsection \<open>classifier/context.ts\<close>

definition CONTEXT_WINDOW_MS :: int where
  "CONTEXT_WINDOW_MS = 30 * 60 * 1000"

definition DWELL_TIME_WEIGHT :: real where
  "DWELL_TIME_WEIGHT = 0.7"

definition RECENCY_WEIGHT :: real where
  "RECENCY_WEIGHT = 0.3"

text \<open>The body of the \<open>map\<close> in updateContext.\<close>

definition recentActivity :: "int \<Rightarrow> TabMeta \<Rightarrow> RecentTabActivity" where
  "recentActivity now tab =
     (let timeSinceActive = now - tab_lastActiveAt tab;
          recencyScore = 1 - real_of_int timeSinceActive / real_of_int CONTEXT_WINDOW_MS;
          dwellScore = min 1 (real_of_int (tab_activeScore tab) / 60000)
      in \<lparr>rt_tabId = tab_tabId tab,
          rt_projectId = tab_projectId tab,
          rt_subprojectId = tab_subprojectId tab,
          rt_lastActiveAt = tab_lastActiveAt tab,
          rt_dwellTime = tab_activeScore tab,
          rt_weight = DWELL_TIME_WEIGHT * dwellScore + RECENCY_WEIGHT * recencyScore\<rparr>)"

definition updateContext :: "int \<Rightarrow> int \<Rightarrow> TabMeta \<Rightarrow> State \<Rightarrow> ActiveContext \<times> State" where
  "updateContext now windowId activatedTab st =
     (let windowTabs = getTabsByWindow windowId st;
          recentTabs =
            sort_desc rt_weight
              (map (recentActivity now)
                 (filter (\<lambda>tab. now - tab_lastActiveAt tab < CONTEXT_WINDOW_MS) windowTabs));
          ctx = \<lparr>ctx_windowId = windowId,
                 ctx_activeProjectId = tab_projectId activatedTab,
                 ctx_activeSubprojectId = tab_subprojectId activatedTab,
                 ctx_recentTabs = recentTabs,
                 ctx_computedAt = now\<rparr>
      in (ctx, st\<lparr>activeContexts := map_set windowId ctx (activeContexts st)\<rparr>))"

definition getContext :: "int \<Rightarrow> int \<Rightarrow> State \<Rightarrow> ActiveContext option" where
  "getContext now windowId st =
     (case map_of (activeContexts st) windowId of
        Some ctx \<Rightarrow> if now - ctx_computedAt ctx < 5000 then Some ctx else None
      | None \<Rightarrow> None)"

subsection \<open>core.ts\<close>

text \<open>The decimal digits of a number, as a template literal prints an integer.\<close>

fun show_nat :: "nat \<Rightarrow> string" where
  "show_nat n =
     (if n < 10 then [char_of (48 + n)] else show_nat (n div 10) @ [char_of (48 + n mod 10)])"

definition show_int :: "int \<Rightarrow> string" where
  "show_int i = (if i < 0 then CHR ''-'' # show_nat (nat (- i)) else show_nat (nat i))"

definition projectColors :: "string list" where
  "projectColors =
     [''#ef4444'', ''#f97316'', ''#f59e0b'', ''#84cc16'', ''#10b981'',
      ''#06b6d4'', ''#3b82f6'', ''#6366f1'', ''#8b5cf6'', ''#ec4899'']"

text \<open>\<open>xs[0]?.subprojectId\<close>.\<close>

definition firstSubprojectId :: "Project \<Rightarrow> string option" where
  "firstSubprojectId project =
     (case proj_subprojects project of [] \<Rightarrow> None | sp # rest \<Rightarrow> Some (sub_subprojectId sp))"

text \<open>
  createProjectForTab. The two suffixes \<open>Math.random().toString(36).slice(2, 9)\<close> of the
  new identifiers are the arguments \<open>rndSub\<close> and \<open>rndProj\<close>.
\<close>

definition createProjectForTab :: "int \<Rightarrow> string \<Rightarrow> string \<Rightarrow> TabMeta \<Rightarrow> State \<Rightarrow> Project \<times> State" where
  "createProjectForTab now rndSub rndProj tab st =
     (let toks = tokenize \<lparr>in_title = Some (tab_title tab), in_h1 = None, in_meta = None,
                           in_host = Some (tab_host tab),
                           in_pathTokens = Some (tab_pathTokens tab)\<rparr>;
          centroid = createCentroid [toks] None;
          subproject =
            \<lparr>sub_subprojectId = ''sub_'' @ show_int now @ ''_'' @ rndSub,
             sub_name = (if join ''/'' (take 2 (tab_pathTokens tab)) \<noteq> []
                         then join ''/'' (take 2 (tab_pathTokens tab)) else tab_host tab),
             sub_signature =
               \<lparr>sig_host = tab_host tab,
                sig_pathPrefix = join ''/'' (take 2 (tab_pathTokens tab)),
                sig_tokenCentroid = centroid\<rparr>,
             sub_rules = [],
             sub_createdAt = now,
             sub_lastActiveAt = now\<rparr>;
          existingProjects = getAllProjects st;
          colorIndex = length existingProjects mod length projectColors;
          project =
            \<lparr>proj_projectId = ''proj_'' @ show_int now @ ''_'' @ rndProj,
             proj_name = (if startsWith (tab_host tab) ''www.'' then drop 4 (tab_host tab)
                          else tab_host tab),
             proj_color = projectColors ! colorIndex,
             proj_pinned = False,
             proj_createdAt = now,
             proj_lastActiveAt = now,
             proj_activeScore = 0,
             proj_centroid = centroid,
             proj_rules = [\<lparr>rule_type = Host, rule_value = tab_host tab, rule_weight = 1.0\<rparr>],
             proj_subprojects = [subproject],
             proj_locked = None\<rparr>;
          st1 = putProject project st
      in (project, st1\<lparr>projectCache := map_set (proj_projectId project) project (projectCache st1)\<rparr>))"

text \<open>Replaces the first element that satisfies \<open>P\<close>: a mutation of the object \<open>find\<close> returns.\<close>

fun update_first :: "('a \<Rightarrow> bool) \<Rightarrow> ('a \<Rightarrow> 'a) \<Rightarrow> 'a list \<Rightarrow> 'a list" where
  "update_first P f [] = []"
| "update_first P f (x # xs) = (if P x then f x # xs else x # update_first P f xs)"

definition updateProjectCentroid :: "int \<Rightarrow> Project \<Rightarrow> TabMeta \<Rightarrow> State \<Rightarrow> State" where
  "updateProjectCentroid now project tab st =
     (let toks = tokenize \<lparr>in_title = Some (tab_title tab),
                           in_h1 = Option.bind (tab_pageSignals tab) ps_h1,
                           in_meta = None,
                           in_host = Some (tab_host tab),
                           in_pathTokens = Some (tab_pathTokens tab)\<rparr>;
          project1 = project\<lparr>proj_centroid := updateCentroid (proj_centroid project) toks (fl 0.1)\<rparr>;
          project2 = project1
            \<lparr>proj_subprojects :=
               update_first (\<lambda>sp. Some (sub_subprojectId sp) = tab_subprojectId tab)
                 (\<lambda>sp. sp\<lparr>sub_signature :=
                             (sub_signature sp)
                               \<lparr>sig_tokenCentroid :=
                                  updateCentroid (sig_tokenCentroid (sub_signature sp)) toks (fl 0.2)\<rparr>,
                           sub_lastActiveAt := now\<rparr>)
                 (proj_subprojects project1)\<rparr>;
          st1 = putProject project2 st
      in st1\<lparr>projectCache := map_set (proj_projectId project2) project2 (projectCache st1)\<rparr>)"

text \<open>
  The tab object is mutated by assignTabToProject, so a result carries the tab as it is
  on return, beside the assignment and the state.

  assignNewProject is the block that assignTabToProject runs twice, when there is no
  project at all and when no candidate clears the threshold: a new project for the tab.
\<close>

definition assignNewProject ::
  "int \<Rightarrow> string \<Rightarrow> string \<Rightarrow> TabMeta \<Rightarrow> State \<Rightarrow> TabAssignment \<times> TabMeta \<times> State" where
  "assignNewProject now rndSub rndProj tab st =
     (let (newProject, st1) = createProjectForTab now rndSub rndProj tab st;
          tab1 = tab\<lparr>tab_projectId := Some (proj_projectId newProject),
                     tab_subprojectId := firstSubprojectId newProject\<rparr>;
          st2 = putTab tab1 st1
      in (\<lparr>asg_tabId = tab_tabId tab1,
           asg_projectId = proj_projectId newProject,
           asg_subprojectId = tab_subprojectId tab1,
           asg_confidence = 1.0,
           asg_method = Default\<rparr>, tab1, st2))"

text \<open>The block of assignTabToProject that commits the best match.\<close>

definition commitMatch ::
  "int \<Rightarrow> ScoringResult \<Rightarrow> TabMeta \<Rightarrow> State \<Rightarrow> TabAssignment \<times> TabMeta \<times> State" where
  "commitMatch now bestMatch tab st =
     (let tab1 = tab\<lparr>tab_projectId := Some (res_projectId bestMatch),
                     tab_subprojectId := res_subprojectId bestMatch\<rparr>;
          st1 = putTab tab1 st;
          st2 = (case getProject (res_projectId bestMatch) st1 of
                   Some project \<Rightarrow>
                     updateProjectCentroid now (project\<lparr>proj_lastActiveAt := now\<rparr>) tab1 st1
                 | None \<Rightarrow> st1)
      in (\<lparr>asg_tabId = tab_tabId tab1,
           asg_projectId = res_projectId bestMatch,
           asg_subprojectId = res_subprojectId bestMatch,
           asg_confidence = res_score bestMatch,
           asg_method = (if res_score bestMatch > 0.8 then Deterministic else Semantic)\<rparr>,
          tab1, st2))"

text \<open>assignTabToProject. The matcher of core.ts is built with the default configuration.\<close>

definition assignTabToProject ::
  "int \<Rightarrow> string \<Rightarrow> string \<Rightarrow> TabMeta \<Rightarrow> int \<Rightarrow> State \<Rightarrow> TabAssignment \<times> TabMeta \<times> State" where
  "assignTabToProject now rndSub rndProj tab windowId st =
     (if tab_manuallyAssigned tab = Some True \<and> truthy (tab_projectId tab) then
        (\<lparr>asg_tabId = tab_tabId tab,
          asg_projectId = the (tab_projectId tab),
          asg_subprojectId = tab_subprojectId tab,
          asg_confidence = 1.0,
          asg_method = Manual\<rparr>, tab, st)
      else
        let projects = getAllProjects st in
        if length projects = 0 then assignNewProject now rndSub rndProj tab st
        else
          let (ctx, st1) = updateContext now windowId tab st;
              bestMatch = getBestMatch DEFAULT_MATCHER_CONFIG now tab projects (Some ctx)
          in case bestMatch of
               None \<Rightarrow> assignNewProject now rndSub rndProj tab st1
             | Some best \<Rightarrow>
                 if res_score best > 0.5 then commitMatch now best tab st1
                 else assignNewProject now rndSub rndProj tab st1)"

subsection \<open>Candidate narrowing as the specification words it\<close>

text \<open>
  The three tests of the staged narrowing, in the words of the specification: a project
  is local to the host of the tab, is local to its registrable domain (the last two labels
  of the host), or was active within the last 30 minutes.
\<close>

definition spec_sameHost :: "TabMeta \<Rightarrow> Project \<Rightarrow> bool" where
  "spec_sameHost tab p =
     ((\<exists>sp \<in> set (proj_subprojects p). sig_host (sub_signature sp) = tab_host tab)
      \<or> (\<exists>r \<in> set (proj_rules p). rule_type r = Host \<and> rule_value r = tab_host tab))"

definition spec_sameDomain :: "TabMeta \<Rightarrow> Project \<Rightarrow> bool" where
  "spec_sameDomain tab p =
     (\<exists>r \<in> set (proj_rules p). rule_type r = Domain
        \<and> rule_value r = join ''.'' (slice_last2 (split_on CHR ''.'' (tab_host tab))))"

definition spec_recent :: "int \<Rightarrow> Project \<Rightarrow> bool" where
  "spec_recent now p = (now - proj_lastActiveAt p < 30 * 60 * 1000)"

subsection \<open>Example data\<close>

text \<open>
  Small values on which the theorems below are evaluated: a tab on a host with no path and
  no title, a rule of weight 1, a project with an empty centroid and no subproject, a
  context with no recent tab, and a state that holds some projects and nothing else.
\<close>

definition exTab :: "string \<Rightarrow> TabMeta" where
  "exTab host =
     \<lparr>tab_tabId = 1, tab_windowId = 1, tab_url = ''https://'' @ host @ ''/'', tab_title = '''',
      tab_host = host, tab_pathTokens = [], tab_queryKeys = [], tab_pageSignals = None,
      tab_createdAt = 0, tab_lastActiveAt = 0, tab_activeScore = 0, tab_projectId = None,
      tab_subprojectId = None, tab_featuresHash = '''', tab_embeddingId = None,
      tab_openerTabId = None, tab_manuallyAssigned = None\<rparr>"

definition exRule :: "RuleType \<Rightarrow> string \<Rightarrow> ProjectRule" where
  "exRule t v = \<lparr>rule_type = t, rule_value = v, rule_weight = 1\<rparr>"

definition exProject :: "string \<Rightarrow> ProjectRule list \<Rightarrow> int \<Rightarrow> Project" where
  "exProject pid rules lastActive =
     \<lparr>proj_projectId = pid, proj_name = pid, proj_color = ''#ef4444'', proj_pinned = False,
      proj_createdAt = 0, proj_lastActiveAt = lastActive, proj_activeScore = 0,
      proj_centroid = \<lparr>cen_tokens = [], cen_totalWeight = 0\<rparr>,
      proj_rules = rules, proj_subprojects = [], proj_locked = None\<rparr>"

definition exContext :: "string option \<Rightarrow> ActiveContext" where
  "exContext active =
     \<lparr>ctx_windowId = 1, ctx_activeProjectId = active, ctx_activeSubprojectId = None,
      ctx_recentTabs = [], ctx_computedAt = 0\<rparr>"

definition exState :: "Project list \<Rightarrow> State" where
  "exState projects = \<lparr>db_tabs = [], db_projects = projects, activeContexts = [], projectCache = []\<rparr>"

text \<open>
  A state whose only stored tab belongs to the project, has one minute of dwell and
  carries a time of last activity five hours after the clock readings used below.
\<close>

definition exStoredTab :: TabMeta where
  "exStoredTab =
     (exTab ''github.com'')\<lparr>tab_tabId := 2, tab_lastActiveAt := 18000000,
        tab_activeScore := 60000, tab_projectId := Some ''p1''\<rparr>"

definition exStateAhead :: State where
  "exStateAhead =
     \<lparr>db_tabs = [exStoredTab], db_projects = [exProject ''p1'' [exRule Host ''github.com''] 0],
      activeContexts = [], projectCache = []\<rparr>"

text \<open>
  Two centroids: one with small integer weights, on which no addition rounds, and one with
  nine tokens of weight 17.9 each, compared with the list of its own nine tokens.
\<close>

definition exSmallCentroid :: TokenCentroid where
  "exSmallCentroid = \<lparr>cen_tokens = [(''abc'', 1), (''xyz'', 2)], cen_totalWeight = 3\<rparr>"



section \<open>Properties\<close>

subsection \<open>Rounding to the nearest double\<close>

lemma round_even_near:
  assumes "\<bar>y - of_int m\<bar> < 1 / 2"
  shows "round_even y = m"
proof -
  have "\<lfloor>y\<rfloor> = m \<or> \<lfloor>y\<rfloor> = m - 1" using assms by linarith
  then show ?thesis
  proof
    assume f: "\<lfloor>y\<rfloor> = m"
    then have "y - of_int m < 1 / 2" using assms by linarith
    then show ?thesis by (simp add: round_even_def f)
  next
    assume f: "\<lfloor>y\<rfloor> = m - 1"
    have "- (1 / 2) < y - of_int m" using assms by linarith
    then have "1 / 2 < y - of_int (m - 1)" by simp
    then show ?thesis using f by (simp add: round_even_def Let_def)
  qed
qed

lemma round_even_of_int [simp]: "round_even (of_int m) = m"
  by (rule round_even_near) simp

lemma round_even_tie:
  assumes "y = of_int m + 1 / 2"
  shows "round_even y = (if even m then m else m + 1)"
proof -
  have f: "\<lfloor>y\<rfloor> = m" using assms by linarith
  show ?thesis using assms by (simp add: round_even_def f)
qed

lemma round_even_err: "\<bar>of_int (round_even y) - y\<bar> \<le> 1 / 2"
  unfolding round_even_def Let_def by (auto; linarith)



lemma fl_0 [simp]: "fl 0 = 0"
  by (simp add: fl_def)


lemma floor_log2_eq:
  assumes "2 powi k \<le> x" "x < 2 powi (k + 1)"
  shows "\<lfloor>log 2 x\<rfloor> = k"
proof -
  have x: "0 < x" using assms(1) by (smt (verit) zero_less_power_int)
  have "(2::real) powr of_int k \<le> x \<and> x < 2 powr (of_int k + 1)"
    using assms powr_real_of_int'[of 2 k] powr_real_of_int'[of 2 "k + 1"] by simp
  then show ?thesis using floor_log_eq_powr_iff[OF x, of 2 k] by simp
qed

text \<open>The certificate of one rounding, for a number in the normal range.\<close>

lemma fl_eqI:
  assumes "2 powi (e + 52) \<le> \<bar>x\<bar>" "\<bar>x\<bar> < 2 powi (e + 53)" "- 1074 \<le> e"
    and "\<bar>x / 2 powi e - of_int m\<bar> < 1 / 2"
  shows "fl x = of_int m * 2 powi e"
proof -
  have x: "x \<noteq> 0" using assms(1) by (smt (verit) zero_less_power_int)
  have "\<lfloor>log 2 \<bar>x\<bar>\<rfloor> = e + 52"
    using assms(1,2) by (intro floor_log2_eq) (simp_all add: add.assoc)
  then have "max (\<lfloor>log 2 \<bar>x\<bar>\<rfloor> - 52) (- 1074) = e" using assms(3) by simp
  then show ?thesis using x round_even_near[OF assms(4)] by (simp add: fl_def Let_def)
qed



lemma round_even_tie_even:
  assumes "\<bar>y - of_int m\<bar> = 1 / 2" "even m"
  shows "round_even y = m"
proof -
  have "y = of_int m + 1 / 2 \<or> y = of_int (m - 1) + 1 / 2" using assms(1) by (simp; linarith)
  then show ?thesis
  proof
    assume "y = of_int m + 1 / 2"
    then show ?thesis using round_even_tie[of y m] assms(2) by simp
  next
    assume "y = of_int (m - 1) + 1 / 2"
    then show ?thesis using round_even_tie[of y "m - 1"] assms(2) by simp
  qed
qed

lemma fl_eqI_tie:
  assumes "2 powi (e + 52) \<le> \<bar>x\<bar>" "\<bar>x\<bar> < 2 powi (e + 53)" "- 1074 \<le> e"
    and "\<bar>x / 2 powi e - of_int m\<bar> = 1 / 2" "even m"
  shows "fl x = of_int m * 2 powi e"
proof -
  have x: "x \<noteq> 0" using assms(1) by (smt (verit) zero_less_power_int)
  have "\<lfloor>log 2 \<bar>x\<bar>\<rfloor> = e + 52"
    using assms(1,2) by (intro floor_log2_eq) (simp_all add: add.assoc)
  then have "max (\<lfloor>log 2 \<bar>x\<bar>\<rfloor> - 52) (- 1074) = e" using assms(3) by simp
  then show ?thesis using x round_even_tie_even[OF assms(4,5)] by (simp add: fl_def Let_def)
qed


text \<open>A number with at most 53 significant bits above the smallest exponent is a double.\<close>

lemma fl_exact:
  assumes "\<bar>m\<bar> < 2 ^ 53" "- 1074 \<le> k"
  shows "fl (of_int m * 2 powi k) = of_int m * 2 powi k"
proof (cases "m = 0")
  case True
  then show ?thesis by simp
next
  case False
  define x :: real where "x = of_int m * 2 powi k"
  define e where "e = max (\<lfloor>log 2 \<bar>x\<bar>\<rfloor> - 52) (- 1074)"
  have x0: "x \<noteq> 0" using False by (simp add: x_def)
  have ax: "\<bar>x\<bar> = of_int \<bar>m\<bar> * 2 powi k" by (simp add: x_def abs_mult)
  have "of_int \<bar>m\<bar> < (2::real) ^ 53" using assms(1) by (metis of_int_less_iff of_int_numeral of_int_power)
  then have "\<bar>x\<bar> < 2 ^ 53 * 2 powi k" unfolding ax by (intro mult_strict_right_mono) simp_all
  also have "\<dots> = 2 powi (k + 53)" by (simp add: power_int_add)
  finally have "\<bar>x\<bar> < 2 powi (k + 53)" .
  then have "\<bar>x\<bar> < 2 powr (of_int (k + 53))"
    using powr_real_of_int'[of 2 "k + 53"] by simp
  then have "log 2 \<bar>x\<bar> < of_int (k + 53)"
    using x0 by (simp add: log_less_iff)
  then have "\<lfloor>log 2 \<bar>x\<bar>\<rfloor> < k + 53" by linarith
  then have ek: "e \<le> k" using assms(2) by (simp add: e_def)
  have "x / 2 powi e = of_int m * 2 powi (k - e)" by (simp add: x_def power_int_diff)
  also have "\<dots> = of_int (m * 2 ^ nat (k - e))" using ek by (simp add: power_int_def)
  finally have "x / 2 powi e = of_int (m * 2 ^ nat (k - e))" .
  then have "round_even (x / 2 powi e) = m * 2 ^ nat (k - e)"
    by (simp only: round_even_of_int)
  then have "fl x = of_int (m * 2 ^ nat (k - e)) * 2 powi e"
    using x0 by (simp add: fl_def Let_def e_def[symmetric])
  also have "\<dots> = of_int m * (2 powi (k - e) * 2 powi e)" using ek by (simp add: power_int_def)
  also have "\<dots> = x" by (simp add: x_def power_int_diff)
  finally show ?thesis by (simp add: x_def)
qed

lemma fl_of_int:
  assumes "\<bar>m\<bar> < 2 ^ 53"
  shows "fl (of_int m) = of_int m"
  using fl_exact[OF assms, of 0] by simp

lemma fl_of_nat:
  assumes "n < 2 ^ 53"
  shows "fl (real n) = real n"
  using fl_of_int[of "int n"] assms by simp

lemma fl_1 [simp]: "fl 1 = 1"
  using fl_of_int[of 1] by simp

lemma fl_numeral:
  assumes "(numeral n :: int) < 2 ^ 53"
  shows "fl (numeral n) = numeral n"
  using fl_of_int[of "numeral n"] assms by simp

text \<open>
  The roundings that the examples below go through, each checked against the definition of
  \<open>fl\<close>: the argument is the exact result of the operation on two doubles, the value is
  the double the operation returns.
\<close>

lemma fl_03: "fl (3 / 10) = 5404319552844595 / 18014398509481984"
proof -
  have "fl (3 / 10) = of_int 5404319552844595 * 2 powi (- 54)"
    by (rule fl_eqI) simp_all
  then show ?thesis by simp
qed

lemma fl_01: "fl (1 / 10) = 3602879701896397 / 36028797018963968"
proof -
  have "fl (1 / 10) = of_int 7205759403792794 * 2 powi (- 56)"
    by (rule fl_eqI) simp_all
  then show ?thesis by simp
qed

lemma fl_02: "fl (1 / 5) = 3602879701896397 / 18014398509481984"
proof -
  have "fl (1 / 5) = of_int 7205759403792794 * 2 powi (- 55)"
    by (rule fl_eqI) simp_all
  then show ?thesis by simp
qed

lemma fl_03_01: "fl (14411518807585587 / 36028797018963968) = 3602879701896397 / 9007199254740992"
proof -
  have "fl (14411518807585587 / 36028797018963968) = of_int 7205759403792794 * 2 powi (- 54)"
    by (rule fl_eqI_tie) simp_all
  then show ?thesis by simp
qed

lemma fl_03_01_02: "fl (10808639105689191 / 18014398509481984) = 1351079888211149 / 2251799813685248"
proof -
  have "fl (10808639105689191 / 18014398509481984) = of_int 5404319552844596 * 2 powi (- 53)"
    by (rule fl_eqI_tie) simp_all
  then show ?thesis by simp
qed

lemma fl_03_02: "fl (1 / 2) = 1 / 2"
proof -
  have "fl (1 / 2) = of_int 4503599627370496 * 2 powi (- 53)"
    by (rule fl_eqI) simp_all
  then show ?thesis by simp
qed

lemma fl_03_02_01: "fl (21617278211378381 / 36028797018963968) = 5404319552844595 / 9007199254740992"
proof -
  have "fl (21617278211378381 / 36028797018963968) = of_int 5404319552844595 * 2 powi (- 53)"
    by (rule fl_eqI) simp_all
  then show ?thesis by simp
qed































lemmas c3_certs = fl_03 fl_01 fl_02 fl_03_01 fl_03_01_02 fl_03_02 fl_03_02_01


lemma fl_1_01: "fl (39631676720860365 / 36028797018963968) = 2476979795053773 / 2251799813685248"
proof -
  have "fl (39631676720860365 / 36028797018963968) = of_int 4953959590107546 * 2 powi (- 52)"
    by (rule fl_eqI) simp_all
  then show ?thesis by simp
qed

lemma fl_1_01_01: "fl (43234556422756765 / 36028797018963968) = 1351079888211149 / 1125899906842624"
proof -
  have "fl (43234556422756765 / 36028797018963968) = of_int 5404319552844596 * 2 powi (- 52)"
    by (rule fl_eqI) simp_all
  then show ?thesis by simp
qed

lemma fl_1_01_01_01: "fl (46837436124653165 / 36028797018963968) = 2927339757790823 / 2251799813685248"
proof -
  have "fl (46837436124653165 / 36028797018963968) = of_int 5854679515581646 * 2 powi (- 52)"
    by (rule fl_eqI) simp_all
  then show ?thesis by simp
qed

lemma fl_01_times_3: "fl (10808639105689191 / 36028797018963968) = 1351079888211149 / 4503599627370496"
proof -
  have "fl (10808639105689191 / 36028797018963968) = of_int 5404319552844596 * 2 powi (- 54)"
    by (rule fl_eqI_tie) simp_all
  then show ?thesis by simp
qed

lemma fl_1_03: "fl (5854679515581645 / 4503599627370496) = 5854679515581645 / 4503599627370496"
proof -
  have "fl (5854679515581645 / 4503599627370496) = of_int 5854679515581645 * 2 powi (- 52)"
    by (rule fl_eqI) simp_all
  then show ?thesis by simp
qed


lemmas c3b_certs = fl_01 fl_1_01 fl_1_01_01 fl_1_01_01_01 fl_01_times_3 fl_1_03

subsection \<open>The centroid model\<close>

lemma map_of_map_set: "map_of (map_set k v m) = (map_of m)(k \<mapsto> v)"
  by (induction m) (auto simp: fun_eq_iff)

lemma get_or_zero_map_set:
  "get_or_zero (map_set k v m) k' = (if k' = k then v else get_or_zero m k')"
  by (simp add: get_or_zero_def map_of_map_set)

lemma keys_map_set: "set (map fst (map_set k v m)) = insert k (set (map fst m))"
  by (induction m) auto

lemma distinct_map_set: "distinct (map fst m) \<Longrightarrow> distinct (map fst (map_set k v m))"
  by (induction m) (auto simp: keys_map_set[simplified])

lemma get_or_zero_add_tokens:
  "get_or_zero (add_tokens w T m) tok
     = ((\<lambda>x. fl (x + w)) ^^ count_list T tok) (get_or_zero m tok)"
proof -
  have sw: "((\<lambda>x. fl (x + w)) ^^ n) (fl (x + w)) = fl (((\<lambda>x. fl (x + w)) ^^ n) x + w)" for n x
    using funpow_swap1[of "\<lambda>x. fl (x + w)" n x] by simp
  show ?thesis
    unfolding add_tokens_def
    by (induction T arbitrary: m) (simp_all add: get_or_zero_map_set sw)
qed

lemma keys_add_tokens: "set (map fst (add_tokens w T m)) = set (map fst m) \<union> set T"
  unfolding add_tokens_def
  by (induction T arbitrary: m) (simp_all add: keys_map_set del: set_map)

lemma distinct_add_tokens: "distinct (map fst m) \<Longrightarrow> distinct (map fst (add_tokens w T m))"
  unfolding add_tokens_def
  by (induction T arbitrary: m) (simp_all add: distinct_map_set)

lemma funpow_fl_exact:
  assumes "\<forall>k<n. fl (x + real (Suc k) * w) = x + real (Suc k) * w"
  shows "((\<lambda>y. fl (y + w)) ^^ n) x = x + real n * w"
  using assms
proof (induction n)
  case 0
  show ?case by simp
next
  case (Suc n)
  have "((\<lambda>y. fl (y + w)) ^^ n) x = x + real n * w" using Suc by simp
  then have "((\<lambda>y. fl (y + w)) ^^ Suc n) x = fl (x + real n * w + w)" by simp
  also have "x + real n * w + w = x + real (Suc n) * w" by (simp add: algebra_simps)
  also have "fl \<dots> = x + real (Suc n) * w" using Suc.prems by blast
  finally show ?case .
qed

lemma funpow_fl_exact2:
  assumes "\<forall>i\<le>n1. \<forall>j\<le>n2. fl (x + real i * w1 + real j * w2) = x + real i * w1 + real j * w2"
  shows "((\<lambda>y. fl (y + w2)) ^^ n2) (((\<lambda>y. fl (y + w1)) ^^ n1) x) = x + real n1 * w1 + real n2 * w2"
    and "((\<lambda>y. fl (y + w1)) ^^ n1) (((\<lambda>y. fl (y + w2)) ^^ n2) x) = x + real n1 * w1 + real n2 * w2"
proof -
  have a: "((\<lambda>y. fl (y + w1)) ^^ n1) x = x + real n1 * w1"
  proof (rule funpow_fl_exact, intro allI impI)
    fix k assume "k < n1"
    then have "Suc k \<le> n1" by simp
    then show "fl (x + real (Suc k) * w1) = x + real (Suc k) * w1"
      using assms[rule_format, of "Suc k" 0] by simp
  qed
  have b: "((\<lambda>y. fl (y + w2)) ^^ n2) (x + real n1 * w1) = x + real n1 * w1 + real n2 * w2"
  proof (rule funpow_fl_exact, intro allI impI)
    fix k assume "k < n2"
    then have "Suc k \<le> n2" by simp
    then show "fl (x + real n1 * w1 + real (Suc k) * w2) = x + real n1 * w1 + real (Suc k) * w2"
      using assms[rule_format, of n1 "Suc k"] by simp
  qed
  show "((\<lambda>y. fl (y + w2)) ^^ n2) (((\<lambda>y. fl (y + w1)) ^^ n1) x) = x + real n1 * w1 + real n2 * w2"
    using a b by simp
  have c: "((\<lambda>y. fl (y + w2)) ^^ n2) x = x + real n2 * w2"
  proof (rule funpow_fl_exact, intro allI impI)
    fix k assume "k < n2"
    then have "Suc k \<le> n2" by simp
    then show "fl (x + real (Suc k) * w2) = x + real (Suc k) * w2"
      using assms[rule_format, of 0 "Suc k"] by simp
  qed
  have d: "((\<lambda>y. fl (y + w1)) ^^ n1) (x + real n2 * w2) = x + real n2 * w2 + real n1 * w1"
  proof (rule funpow_fl_exact, intro allI impI)
    fix k assume "k < n1"
    then have "Suc k \<le> n1" by simp
    then have h: "fl (x + real (Suc k) * w1 + real n2 * w2) = x + real (Suc k) * w1 + real n2 * w2"
      using assms by blast
    have eq: "x + real n2 * w2 + real (Suc k) * w1 = x + real (Suc k) * w1 + real n2 * w2"
      by simp
    show "fl (x + real n2 * w2 + real (Suc k) * w1) = x + real n2 * w2 + real (Suc k) * w1"
      unfolding eq by (rule h)
  qed
  show "((\<lambda>y. fl (y + w1)) ^^ n1) (((\<lambda>y. fl (y + w2)) ^^ n2) x) = x + real n1 * w1 + real n2 * w2"
    using c d by simp
qed

text \<open>
  C3, as amended. The weights of a centroid are doubles: updateCentroid adds the update
  weight to the weight of a token once for each occurrence of the token, and each sum is
  rounded to the nearest double. For weights of magnitude at most \<open>2^1000\<close> and lists of at
  most \<open>2^20\<close> tokens, where no sum overflows: the weight of a token after an update is its
  old weight (0 for a token that was absent) with the update weight added as often as the
  token occurs in the list, each addition rounded; the keys are the old keys and the
  tokens of the list; totalWeight is the rounded sum of the old total and the rounded
  product of the weight and the length of the list. After two updates the weight of a
  token has gone through the additions of the first update and then those of the second,
  and the keys are the same in either order. Where no addition rounds (every partial sum
  is a double), the weight after one update is the old weight plus the update weight times
  the occurrences of the token, and after two updates the old weight plus \<open>w1\<close> times the
  occurrences in \<open>T1\<close> plus \<open>w2\<close> times the occurrences in \<open>T2\<close>, in either order.
\<close>

theorem updateCentroid_rounded:
  assumes "\<bar>w1\<bar> \<le> 2 powi 1000" "\<bar>w2\<bar> \<le> 2 powi 1000"
    and "length T1 \<le> 2 ^ 20" "length T2 \<le> 2 ^ 20"
    and "list_all (\<lambda>(k, x). \<bar>x\<bar> \<le> 2 powi 1000) (cen_tokens C)"
    and "\<bar>cen_totalWeight C\<bar> \<le> 2 powi 1000"
  shows "get_or_zero (cen_tokens (updateCentroid C T1 w1)) tok
       = ((\<lambda>x. fl (x + w1)) ^^ count_list T1 tok) (get_or_zero (cen_tokens C) tok)
     \<and> set (map fst (cen_tokens (updateCentroid C T1 w1))) = set (map fst (cen_tokens C)) \<union> set T1
     \<and> cen_totalWeight (updateCentroid C T1 w1)
       = fl (cen_totalWeight C + fl (w1 * real (length T1)))
     \<and> get_or_zero (cen_tokens (updateCentroid (updateCentroid C T1 w1) T2 w2)) tok
       = ((\<lambda>x. fl (x + w2)) ^^ count_list T2 tok)
           (((\<lambda>x. fl (x + w1)) ^^ count_list T1 tok) (get_or_zero (cen_tokens C) tok))
     \<and> set (map fst (cen_tokens (updateCentroid (updateCentroid C T1 w1) T2 w2)))
       = set (map fst (cen_tokens (updateCentroid (updateCentroid C T2 w2) T1 w1)))
     \<and> ((\<forall>k<count_list T1 tok.
            fl (get_or_zero (cen_tokens C) tok + real (Suc k) * w1)
              = get_or_zero (cen_tokens C) tok + real (Suc k) * w1)
          \<longrightarrow> get_or_zero (cen_tokens (updateCentroid C T1 w1)) tok
              = get_or_zero (cen_tokens C) tok + w1 * real (count_list T1 tok))
     \<and> ((\<forall>i\<le>count_list T1 tok. \<forall>j\<le>count_list T2 tok.
            fl (get_or_zero (cen_tokens C) tok + real i * w1 + real j * w2)
              = get_or_zero (cen_tokens C) tok + real i * w1 + real j * w2)
          \<longrightarrow> get_or_zero (cen_tokens (updateCentroid (updateCentroid C T1 w1) T2 w2)) tok
                = get_or_zero (cen_tokens C) tok
                  + w1 * real (count_list T1 tok) + w2 * real (count_list T2 tok)
              \<and> get_or_zero (cen_tokens (updateCentroid (updateCentroid C T2 w2) T1 w1)) tok
                = get_or_zero (cen_tokens C) tok
                  + w1 * real (count_list T1 tok) + w2 * real (count_list T2 tok))"
proof -
  define old where "old = get_or_zero (cen_tokens C) tok"
  have a: "get_or_zero (cen_tokens (updateCentroid C T w)) tok
       = ((\<lambda>x. fl (x + w)) ^^ count_list T tok) (get_or_zero (cen_tokens C) tok)" for C T w
    by (simp add: updateCentroid_def get_or_zero_add_tokens)
  have k: "set (map fst (cen_tokens (updateCentroid C T w))) = set (map fst (cen_tokens C)) \<union> set T"
    for C T w
    by (simp add: updateCentroid_def keys_add_tokens del: set_map)
  have t: "cen_totalWeight (updateCentroid C T1 w1)
       = fl (cen_totalWeight C + fl (w1 * real (length T1)))"
    by (simp add: updateCentroid_def)
  have k2: "set (map fst (cen_tokens (updateCentroid (updateCentroid C T1 w1) T2 w2)))
       = set (map fst (cen_tokens (updateCentroid (updateCentroid C T2 w2) T1 w1)))"
    unfolding k by (simp add: Un_ac del: set_map)
  have e1: "get_or_zero (cen_tokens (updateCentroid C T1 w1)) tok = old + w1 * real (count_list T1 tok)"
    if "\<forall>k<count_list T1 tok. fl (old + real (Suc k) * w1) = old + real (Suc k) * w1"
    unfolding a old_def[symmetric] using funpow_fl_exact[OF that] by (simp add: mult.commute)
  have e2: "get_or_zero (cen_tokens (updateCentroid (updateCentroid C T1 w1) T2 w2)) tok
                = old + w1 * real (count_list T1 tok) + w2 * real (count_list T2 tok)
          \<and> get_or_zero (cen_tokens (updateCentroid (updateCentroid C T2 w2) T1 w1)) tok
                = old + w1 * real (count_list T1 tok) + w2 * real (count_list T2 tok)"
    if "\<forall>i\<le>count_list T1 tok. \<forall>j\<le>count_list T2 tok.
            fl (old + real i * w1 + real j * w2) = old + real i * w1 + real j * w2"
    unfolding a old_def[symmetric] using funpow_fl_exact2[OF that] by (simp add: mult.commute)
  show ?thesis
    unfolding old_def[symmetric]
    using a[of C T1 w1] k[of C T1 w1] t a[of "updateCentroid C T1 w1" T2 w2] k2 e1 e2
    unfolding a old_def[symmetric] by blast
qed

theorem updateCentroid_rounded_witness:
  "get_or_zero (cen_tokens (updateCentroid exSmallCentroid [''abc'', ''def'', ''abc''] 2)) ''abc'' = 5
   \<and> set (map fst (cen_tokens (updateCentroid exSmallCentroid [''abc'', ''def'', ''abc''] 2)))
       = {''abc'', ''xyz'', ''def''}
   \<and> cen_totalWeight (updateCentroid exSmallCentroid [''abc'', ''def'', ''abc''] 2) = 9
   \<and> get_or_zero (cen_tokens (updateCentroid
         (updateCentroid exSmallCentroid [''abc'', ''def'', ''abc''] 2) [''abc''] 3)) ''abc'' = 8
   \<and> get_or_zero (cen_tokens (updateCentroid
         (updateCentroid exSmallCentroid [''abc''] 3) [''abc'', ''def'', ''abc''] 2)) ''abc'' = 8"
proof -
  let ?C = exSmallCentroid
  let ?T1 = "[''abc'', ''def'', ''abc'']"
  let ?T2 = "[''abc'']"
  note th = updateCentroid_rounded[of 2 3 ?T1 ?T2 ?C "''abc''"]
  have h1: "\<bar>2::real\<bar> \<le> 2 powi 1000" "\<bar>3::real\<bar> \<le> 2 powi 1000" by simp_all
  have h2: "length ?T1 \<le> 2 ^ 20" "length ?T2 \<le> 2 ^ 20" by simp_all
  have h3: "list_all (\<lambda>(k, x). \<bar>x\<bar> \<le> 2 powi 1000) (cen_tokens ?C)"
    "\<bar>cen_totalWeight ?C\<bar> \<le> 2 powi 1000"
    by (simp_all add: exSmallCentroid_def)
  have old: "get_or_zero (cen_tokens ?C) ''abc'' = 1"
    by (simp add: exSmallCentroid_def get_or_zero_def)
  have c1: "count_list ?T1 ''abc'' = 2" by simp
  have c2: "count_list ?T2 ''abc'' = 1" by simp
  have ex: "fl (1 + real i * 2 + real j * 3) = 1 + real i * 2 + real j * 3" if "i \<le> 2" "j \<le> 1" for i j
  proof -
    have "1 + i * 2 + j * 3 < (2::nat) ^ 53" using that by simp
    then have "fl (real (1 + i * 2 + j * 3)) = real (1 + i * 2 + j * 3)" by (rule fl_of_nat)
    moreover have "real (1 + i * 2 + j * 3) = 1 + real i * 2 + real j * 3" by simp
    ultimately show ?thesis by (simp only:)
  qed
  have g1: "\<forall>k<count_list ?T1 ''abc''.
      fl (get_or_zero (cen_tokens ?C) ''abc'' + real (Suc k) * 2)
        = get_or_zero (cen_tokens ?C) ''abc'' + real (Suc k) * 2"
    unfolding old c1 using ex[of _ 0] by (auto simp del: of_nat_Suc)
  have g2: "\<forall>i\<le>count_list ?T1 ''abc''. \<forall>j\<le>count_list ?T2 ''abc''.
      fl (get_or_zero (cen_tokens ?C) ''abc'' + real i * 2 + real j * 3)
        = get_or_zero (cen_tokens ?C) ''abc'' + real i * 2 + real j * 3"
    unfolding old c1 c2 using ex by blast
  have r1: "get_or_zero (cen_tokens (updateCentroid ?C ?T1 2)) ''abc'' = 5"
    using th[OF h1 h2 h3] g1 old c1 by simp
  have r2: "set (map fst (cen_tokens (updateCentroid ?C ?T1 2))) = {''abc'', ''xyz'', ''def''}"
    using th[OF h1 h2 h3] by (auto simp: exSmallCentroid_def)
  have "fl (3 + fl (2 * real (length ?T1))) = 9" by (simp add: fl_numeral)
  then have r3: "cen_totalWeight (updateCentroid ?C ?T1 2) = 9"
    using th[OF h1 h2 h3] by (simp add: exSmallCentroid_def)
  have r4: "get_or_zero (cen_tokens (updateCentroid (updateCentroid ?C ?T1 2) ?T2 3)) ''abc'' = 8"
    "get_or_zero (cen_tokens (updateCentroid (updateCentroid ?C ?T2 3) ?T1 2)) ''abc'' = 8"
    using th[OF h1 h2 h3] g2 old c1 c2 by simp_all
  show ?thesis by (intro conjI r1 r2 r3 r4)
qed

text \<open>
  C3 as stated fails in doubles. From a weight of 0.3, the update by 0.1 followed by the
  update by 0.2 gives 0.6000000000000001, and the two updates in the other order give 0.6.
  Three occurrences of a token at the update weight 0.1 take a weight of 1 to
  1.3000000000000003, while 1 plus 0.1 times 3 is 1.3 in doubles.
\<close>

theorem update_order_changes_weight:
  "get_or_zero (cen_tokens (updateCentroid (updateCentroid
        \<lparr>cen_tokens = [(''abc'', fl 0.3)], cen_totalWeight = fl 0.3\<rparr> [''abc''] (fl 0.1)) [''abc''] (fl 0.2))) ''abc''
     = 1351079888211149 / 2251799813685248
   \<and> get_or_zero (cen_tokens (updateCentroid (updateCentroid
        \<lparr>cen_tokens = [(''abc'', fl 0.3)], cen_totalWeight = fl 0.3\<rparr> [''abc''] (fl 0.2)) [''abc''] (fl 0.1))) ''abc''
     = 5404319552844595 / 9007199254740992
   \<and> get_or_zero (cen_tokens (updateCentroid
        \<lparr>cen_tokens = [(''abc'', 1)], cen_totalWeight = 1\<rparr> [''abc'', ''abc'', ''abc''] (fl 0.1))) ''abc''
     = 2927339757790823 / 2251799813685248
   \<and> fl (1 + fl (fl 0.1 * 3)) = 5854679515581645 / 4503599627370496"
  by (simp add: updateCentroid_def add_tokens_def get_or_zero_def c3_certs c3b_certs)

subsection \<open>Similarity\<close>













subsection \<open>Evaluation and sorting\<close>

lemmas ex_defs = exTab_def exRule_def exProject_def exContext_def exState_def

lemmas score_defs = scoreTabForProject_def scoreHostMatch_def scorePathMatch_def
  scoreTokenSimilarity_def scoreChainProximity_def scoreRecencyBoost_def
  weightedTokenSimilarity_def cosineSimilarity_def jaccardSimilarity_def
  DEFAULT_MATCHER_CONFIG_def Let_def

lemma mset_sort_desc: "mset (sort_desc f xs) = mset xs"
  by (simp add: sort_desc_def)

lemma set_sort_desc: "set (sort_desc f xs) = set xs"
  by (simp add: sort_desc_def)

lemma length_sort_desc: "length (sort_desc f xs) = length xs"
  by (simp add: sort_desc_def)

lemma sorted_sort_desc:
  fixes f :: "'a \<Rightarrow> 'k::{linorder,ordered_ab_group_add}"
  shows "sorted_wrt (\<lambda>a b. f b \<le> f a) (sort_desc f xs)"
proof -
  have "sorted (map (\<lambda>x. - f x) (sort_key (\<lambda>x. - f x) xs))" by (rule sorted_sort_key)
  then show ?thesis by (simp add: sort_desc_def sorted_map)
qed

lemma sort_desc_Nil_iff: "sort_desc f xs = [] \<longleftrightarrow> xs = []"
  by (metis length_sort_desc length_0_conv)

lemma sorted_wrt_take_drop:
  assumes "sorted_wrt P xs" "a \<in> set (take n xs)" "b \<in> set (drop n xs)"
  shows "P a b"
proof -
  have "sorted_wrt P (take n xs @ drop n xs)" using assms(1) by simp
  then show ?thesis using assms(2,3) unfolding sorted_wrt_append by blast
qed

subsection \<open>The matcher\<close>

text \<open>
  C2, as amended. scoreAllProjects returns exactly the scored candidates whose total is at
  least the minimum threshold, 0.3 in the default configuration, each as often as it was
  scored, in descending order of the total. A candidate whose total is exactly 0.3 is
  kept: the filter is \<open>>=\<close>.
\<close>

theorem scoreAllProjects_threshold_sorted:
  "mset (scoreAllProjects cfg now tab projects ctx)
     = filter_mset (\<lambda>result. cfg_minThreshold cfg \<le> res_score result)
         (mset (map (\<lambda>project. scoreTabForProject cfg now tab project ctx) projects))
   \<and> sorted_wrt (\<lambda>a b. res_score b \<le> res_score a) (scoreAllProjects cfg now tab projects ctx)
   \<and> cfg_minThreshold DEFAULT_MATCHER_CONFIG = 0.3"
  by (simp add: scoreAllProjects_def mset_sort_desc sorted_sort_desc DEFAULT_MATCHER_CONFIG_def)

text \<open>
  C2 as stated fails: the project below scores exactly 0.3 (a recency boost of 0.3 and
  nothing else) and is returned.
\<close>

theorem threshold_boundary_kept:
  "res_score (scoreTabForProject DEFAULT_MATCHER_CONFIG 1200000 (exTab ''example.com'')
       (exProject ''p1'' [] 0) (Some (exContext (Some ''p2'')))) = 0.3
   \<and> map res_projectId (scoreAllProjects DEFAULT_MATCHER_CONFIG 1200000 (exTab ''example.com'')
       [exProject ''p1'' [] 0] (Some (exContext (Some ''p2'')))) = [''p1'']"
  by (simp add: scoreAllProjects_def sort_desc_def score_defs ex_defs)

text \<open>
  C5. Candidate narrowing is staged: the projects local to the host of the tab when there
  is one; otherwise the projects local to its domain when there is one; otherwise the
  projects active within the last 30 minutes, the most recent first and at most 15 of them
  (the 15 most recent); otherwise the first 20 projects in the order supplied.
\<close>

theorem narrowCandidates_staged:
  "(filter (spec_sameHost tab) projects \<noteq> [] \<longrightarrow>
      narrowCandidates now tab projects = filter (spec_sameHost tab) projects)
   \<and> (filter (spec_sameHost tab) projects = [] \<and> filter (spec_sameDomain tab) projects \<noteq> [] \<longrightarrow>
      narrowCandidates now tab projects = filter (spec_sameDomain tab) projects)
   \<and> (filter (spec_sameHost tab) projects = [] \<and> filter (spec_sameDomain tab) projects = []
        \<and> filter (spec_recent now) projects \<noteq> [] \<longrightarrow>
         narrowCandidates now tab projects
           = take 15 (sort_desc proj_lastActiveAt (filter (spec_recent now) projects))
         \<and> sorted_wrt (\<lambda>a b. proj_lastActiveAt b \<le> proj_lastActiveAt a) (narrowCandidates now tab projects)
         \<and> length (narrowCandidates now tab projects) = min 15 (length (filter (spec_recent now) projects))
         \<and> mset (narrowCandidates now tab projects) \<subseteq># mset (filter (spec_recent now) projects)
         \<and> (\<forall>p \<in> set (filter (spec_recent now) projects). p \<notin> set (narrowCandidates now tab projects) \<longrightarrow>
              (\<forall>q \<in> set (narrowCandidates now tab projects). proj_lastActiveAt p \<le> proj_lastActiveAt q)))
   \<and> (filter (spec_sameHost tab) projects = [] \<and> filter (spec_sameDomain tab) projects = []
        \<and> filter (spec_recent now) projects = [] \<longrightarrow>
         narrowCandidates now tab projects = take 20 projects)"
proof -
  let ?H = "filter (spec_sameHost tab) projects"
  let ?D = "filter (spec_sameDomain tab) projects"
  let ?R = "filter (spec_recent now) projects"
  let ?S = "sort_desc proj_lastActiveAt ?R"
  have H: "?H = filter (\<lambda>p. list_ex (\<lambda>sp. sig_host (sub_signature sp) = tab_host tab) (proj_subprojects p)
                       \<or> list_ex (\<lambda>r. rule_type r = Host \<and> rule_value r = tab_host tab) (proj_rules p)) projects"
    by (simp add: spec_sameHost_def[abs_def] list_ex_iff)
  have D: "?D = filter (\<lambda>p. list_ex (\<lambda>r. rule_type r = Domain \<and> rule_value r = tabDomain (tab_host tab))
                                (proj_rules p)) projects"
    by (simp add: spec_sameDomain_def[abs_def] list_ex_iff tabDomain_def)
  have R: "?R = filter (\<lambda>p. now - proj_lastActiveAt p < 30 * 60 * 1000) projects"
    by (simp add: spec_recent_def[abs_def])
  have nc: "narrowCandidates now tab projects =
      (if ?H \<noteq> [] then ?H else if ?D \<noteq> [] then ?D
       else if take 15 ?S \<noteq> [] then take 15 ?S else take 20 projects)"
    unfolding H D R narrowCandidates_def Let_def by simp
  have t15: "take 15 ?S = [] \<longleftrightarrow> ?R = []"
    by (simp add: sort_desc_Nil_iff)
  have s1: "sorted_wrt (\<lambda>a b. proj_lastActiveAt b \<le> proj_lastActiveAt a) (take 15 ?S)"
    using sorted_sort_desc[of proj_lastActiveAt ?R] by (rule sorted_wrt_take)
  have s2: "length (take 15 ?S) = min 15 (length ?R)"
    by (simp add: length_sort_desc min.commute)
  have "mset (take 15 ?S) \<subseteq># mset (take 15 ?S) + mset (drop 15 ?S)" by simp
  also have "\<dots> = mset ?S" by (metis append_take_drop_id mset_append)
  finally have s3: "mset (take 15 ?S) \<subseteq># mset ?R" by (simp add: mset_sort_desc)
  have s4: "proj_lastActiveAt p \<le> proj_lastActiveAt q"
    if "p \<in> set ?R" "p \<notin> set (take 15 ?S)" "q \<in> set (take 15 ?S)" for p q
  proof -
    have "p \<in> set ?S" using that(1) by (simp add: set_sort_desc)
    then have "p \<in> set (take 15 ?S) \<union> set (drop 15 ?S)"
      by (metis append_take_drop_id set_append)
    then have "p \<in> set (drop 15 ?S)" using that(2) by simp
    then show ?thesis
      using sorted_wrt_take_drop[OF sorted_sort_desc[of proj_lastActiveAt ?R] that(3)] by simp
  qed
  show ?thesis
    unfolding nc using t15 s1 s2 s3 s4 by auto
qed


theorem narrowCandidates_staged_witness:
  "filter (spec_sameHost (exTab ''github.com''))
       [exProject ''a'' [exRule Host ''github.com''] 0, exProject ''b'' [] 0] \<noteq> []
   \<and> narrowCandidates 0 (exTab ''github.com'')
       [exProject ''a'' [exRule Host ''github.com''] 0, exProject ''b'' [] 0]
     = [exProject ''a'' [exRule Host ''github.com''] 0]
   \<and> filter (spec_sameHost (exTab ''gist.github.com''))
       [exProject ''a'' [exRule Domain ''github.com''] 0, exProject ''b'' [] 0] = []
   \<and> filter (spec_sameDomain (exTab ''gist.github.com''))
       [exProject ''a'' [exRule Domain ''github.com''] 0, exProject ''b'' [] 0] \<noteq> []
   \<and> narrowCandidates 0 (exTab ''gist.github.com'')
       [exProject ''a'' [exRule Domain ''github.com''] 0, exProject ''b'' [] 0]
     = [exProject ''a'' [exRule Domain ''github.com''] 0]
   \<and> filter (spec_sameHost (exTab ''x.org''))
       [exProject ''a'' [] 100, exProject ''b'' [] 500, exProject ''c'' [] (- 5000000)] = []
   \<and> filter (spec_sameDomain (exTab ''x.org''))
       [exProject ''a'' [] 100, exProject ''b'' [] 500, exProject ''c'' [] (- 5000000)] = []
   \<and> filter (spec_recent 1000)
       [exProject ''a'' [] 100, exProject ''b'' [] 500, exProject ''c'' [] (- 5000000)] \<noteq> []
   \<and> narrowCandidates 1000 (exTab ''x.org'')
       [exProject ''a'' [] 100, exProject ''b'' [] 500, exProject ''c'' [] (- 5000000)]
     = [exProject ''b'' [] 500, exProject ''a'' [] 100]
   \<and> filter (spec_sameHost (exTab ''x.org'')) [exProject ''c'' [] 0] = []
   \<and> filter (spec_sameDomain (exTab ''x.org'')) [exProject ''c'' [] 0] = []
   \<and> filter (spec_recent 5000000) [exProject ''c'' [] 0] = []
   \<and> narrowCandidates 5000000 (exTab ''x.org'') [exProject ''c'' [] 0] = [exProject ''c'' [] 0]"
proof -
  have a: "filter (spec_sameHost (exTab ''github.com''))
       [exProject ''a'' [exRule Host ''github.com''] 0, exProject ''b'' [] 0]
     = [exProject ''a'' [exRule Host ''github.com''] 0]"
    by (simp add: spec_sameHost_def ex_defs)
  have b: "filter (spec_sameHost (exTab ''gist.github.com''))
       [exProject ''a'' [exRule Domain ''github.com''] 0, exProject ''b'' [] 0] = []"
    "filter (spec_sameDomain (exTab ''gist.github.com''))
       [exProject ''a'' [exRule Domain ''github.com''] 0, exProject ''b'' [] 0]
      = [exProject ''a'' [exRule Domain ''github.com''] 0]"
    by (simp_all add: spec_sameHost_def spec_sameDomain_def slice_last2_def ex_defs)
  have c: "filter (spec_sameHost (exTab ''x.org''))
       [exProject ''a'' [] 100, exProject ''b'' [] 500, exProject ''c'' [] (- 5000000)] = []"
    "filter (spec_sameDomain (exTab ''x.org''))
       [exProject ''a'' [] 100, exProject ''b'' [] 500, exProject ''c'' [] (- 5000000)] = []"
    "filter (spec_recent 1000)
       [exProject ''a'' [] 100, exProject ''b'' [] 500, exProject ''c'' [] (- 5000000)]
      = [exProject ''a'' [] 100, exProject ''b'' [] 500]"
    by (simp_all add: spec_sameHost_def spec_sameDomain_def spec_recent_def ex_defs)
  have c': "take 15 (sort_desc proj_lastActiveAt [exProject ''a'' [] 100, exProject ''b'' [] 500])
      = [exProject ''b'' [] 500, exProject ''a'' [] 100]"
    by (simp add: sort_desc_def exProject_def)
  have d: "filter (spec_sameHost (exTab ''x.org'')) [exProject ''c'' [] 0] = []"
    "filter (spec_sameDomain (exTab ''x.org'')) [exProject ''c'' [] 0] = []"
    "filter (spec_recent 5000000) [exProject ''c'' [] 0] = []"
    by (simp_all add: spec_sameHost_def spec_sameDomain_def spec_recent_def ex_defs)
  show ?thesis
    using narrowCandidates_staged[of "exTab ''github.com''"
        "[exProject ''a'' [exRule Host ''github.com''] 0, exProject ''b'' [] 0]" 0]
      narrowCandidates_staged[of "exTab ''gist.github.com''"
        "[exProject ''a'' [exRule Domain ''github.com''] 0, exProject ''b'' [] 0]" 0]
      narrowCandidates_staged[of "exTab ''x.org''"
        "[exProject ''a'' [] 100, exProject ''b'' [] 500, exProject ''c'' [] (- 5000000)]" 1000]
      narrowCandidates_staged[of "exTab ''x.org''" "[exProject ''c'' [] 0]" 5000000]
    unfolding a b c d c' by simp
qed


text \<open>
  C7. With no context, the chain proximity and the recency boost are both 0, in the
  functions and in the breakdown of scoreTabForProject, whose total is then the weighted
  sum of the other three scores.
\<close>

theorem no_context_scores_zero:
  "scoreChainProximity tab project None = 0
   \<and> scoreRecencyBoost now project None = 0
   \<and> bd_chainProximity (res_breakdown (scoreTabForProject cfg now tab project None)) = 0
   \<and> bd_recencyBoost (res_breakdown (scoreTabForProject cfg now tab project None)) = 0
   \<and> res_score (scoreTabForProject cfg now tab project None)
      = cfg_hostMatchWeight cfg * scoreHostMatch tab project
        + cfg_pathMatchWeight cfg * scorePathMatch tab project
        + cfg_tokenWeight cfg * scoreTokenSimilarity tab project"
  by (simp add: scoreChainProximity_def scoreRecencyBoost_def scoreTabForProject_def Let_def)

text \<open>
  C9, as amended. A ScoringResult is a function of the tab, the project, the context and
  the reading of the clock. Everything in it but the recency boost, and the total that
  holds it, is the same at any two readings. For a context whose active project is
  another one, the recency boost is 0.9, 0.6, 0.3 or 0 as the time since the last
  activity of the project is below 5, 15, 30 minutes or not; the whole result is the
  same at two readings that fall in the same of these four buckets, and at any two
  readings when no context is supplied or the project is the active project of the
  context.
\<close>

theorem scoreTabForProject_clock:
  "res_projectId (scoreTabForProject cfg now1 tab project ctx)
     = res_projectId (scoreTabForProject cfg now2 tab project ctx)
   \<and> res_subprojectId (scoreTabForProject cfg now1 tab project ctx)
     = res_subprojectId (scoreTabForProject cfg now2 tab project ctx)
   \<and> bd_hostMatch (res_breakdown (scoreTabForProject cfg now1 tab project ctx))
     = bd_hostMatch (res_breakdown (scoreTabForProject cfg now2 tab project ctx))
   \<and> bd_pathMatch (res_breakdown (scoreTabForProject cfg now1 tab project ctx))
     = bd_pathMatch (res_breakdown (scoreTabForProject cfg now2 tab project ctx))
   \<and> bd_tokenSimilarity (res_breakdown (scoreTabForProject cfg now1 tab project ctx))
     = bd_tokenSimilarity (res_breakdown (scoreTabForProject cfg now2 tab project ctx))
   \<and> bd_chainProximity (res_breakdown (scoreTabForProject cfg now1 tab project ctx))
     = bd_chainProximity (res_breakdown (scoreTabForProject cfg now2 tab project ctx))
   \<and> (ctx_activeProjectId c \<noteq> Some (proj_projectId project) \<longrightarrow>
        bd_recencyBoost (res_breakdown (scoreTabForProject cfg now1 tab project (Some c)))
          = (if now1 - proj_lastActiveAt project < 5 * 60 * 1000 then 0.9
             else if now1 - proj_lastActiveAt project < 15 * 60 * 1000 then 0.6
             else if now1 - proj_lastActiveAt project < 30 * 60 * 1000 then 0.3
             else 0))
   \<and> ((now1 - proj_lastActiveAt project < 5 * 60 * 1000
         \<and> now2 - proj_lastActiveAt project < 5 * 60 * 1000)
        \<or> (5 * 60 * 1000 \<le> now1 - proj_lastActiveAt project
            \<and> now1 - proj_lastActiveAt project < 15 * 60 * 1000
            \<and> 5 * 60 * 1000 \<le> now2 - proj_lastActiveAt project
            \<and> now2 - proj_lastActiveAt project < 15 * 60 * 1000)
        \<or> (15 * 60 * 1000 \<le> now1 - proj_lastActiveAt project
            \<and> now1 - proj_lastActiveAt project < 30 * 60 * 1000
            \<and> 15 * 60 * 1000 \<le> now2 - proj_lastActiveAt project
            \<and> now2 - proj_lastActiveAt project < 30 * 60 * 1000)
        \<or> (30 * 60 * 1000 \<le> now1 - proj_lastActiveAt project
            \<and> 30 * 60 * 1000 \<le> now2 - proj_lastActiveAt project)
        \<longrightarrow>
        scoreTabForProject cfg now1 tab project ctx = scoreTabForProject cfg now2 tab project ctx)
   \<and> (scoreRecencyBoost now1 project ctx = scoreRecencyBoost now2 project ctx \<longrightarrow>
        scoreTabForProject cfg now1 tab project ctx = scoreTabForProject cfg now2 tab project ctx)
   \<and> scoreTabForProject cfg now1 tab project None = scoreTabForProject cfg now2 tab project None
   \<and> (ctx_activeProjectId c = Some (proj_projectId project) \<longrightarrow>
        scoreTabForProject cfg now1 tab project (Some c)
          = scoreTabForProject cfg now2 tab project (Some c))"
proof -
  let ?d1 = "now1 - proj_lastActiveAt project" and ?d2 = "now2 - proj_lastActiveAt project"
  have v: "scoreRecencyBoost now project (Some c)
          = (if now - proj_lastActiveAt project < 5 * 60 * 1000 then 0.9
             else if now - proj_lastActiveAt project < 15 * 60 * 1000 then 0.6
             else if now - proj_lastActiveAt project < 30 * 60 * 1000 then 0.3
             else 0)"
    if "ctx_activeProjectId c \<noteq> Some (proj_projectId project)" for now c
    using that by (simp add: scoreRecencyBoost_def Let_def)
  have b: "scoreRecencyBoost now1 project ctx = scoreRecencyBoost now2 project ctx"
    if "(?d1 < 5 * 60 * 1000 \<and> ?d2 < 5 * 60 * 1000)
        \<or> (5 * 60 * 1000 \<le> ?d1 \<and> ?d1 < 15 * 60 * 1000 \<and> 5 * 60 * 1000 \<le> ?d2 \<and> ?d2 < 15 * 60 * 1000)
        \<or> (15 * 60 * 1000 \<le> ?d1 \<and> ?d1 < 30 * 60 * 1000 \<and> 15 * 60 * 1000 \<le> ?d2 \<and> ?d2 < 30 * 60 * 1000)
        \<or> (30 * 60 * 1000 \<le> ?d1 \<and> 30 * 60 * 1000 \<le> ?d2)"
  proof (cases ctx)
    case None
    then show ?thesis by (simp add: scoreRecencyBoost_def)
  next
    case (Some c')
    show ?thesis
    proof (cases "ctx_activeProjectId c' = Some (proj_projectId project)")
      case True
      then show ?thesis using Some by (simp add: scoreRecencyBoost_def)
    next
      case False
      show ?thesis unfolding Some v[OF False] using that by auto
    qed
  qed
  have r: "bd_recencyBoost (res_breakdown (scoreTabForProject cfg now tab project ctx'))
      = scoreRecencyBoost now project ctx'" for now ctx'
    by (simp add: scoreTabForProject_def Let_def)
  have e: "scoreTabForProject cfg now1 tab project ctx' = scoreTabForProject cfg now2 tab project ctx'"
    if "scoreRecencyBoost now1 project ctx' = scoreRecencyBoost now2 project ctx'" for ctx'
    using that by (simp add: scoreTabForProject_def Let_def)
  have n: "scoreRecencyBoost now1 project None = scoreRecencyBoost now2 project None"
    by (simp add: scoreRecencyBoost_def)
  have a: "scoreRecencyBoost now1 project (Some c) = scoreRecencyBoost now2 project (Some c)"
    if "ctx_activeProjectId c = Some (proj_projectId project)"
    using that by (simp add: scoreRecencyBoost_def)
  have six: "res_projectId (scoreTabForProject cfg now1 tab project ctx)
     = res_projectId (scoreTabForProject cfg now2 tab project ctx)
   \<and> res_subprojectId (scoreTabForProject cfg now1 tab project ctx)
     = res_subprojectId (scoreTabForProject cfg now2 tab project ctx)
   \<and> bd_hostMatch (res_breakdown (scoreTabForProject cfg now1 tab project ctx))
     = bd_hostMatch (res_breakdown (scoreTabForProject cfg now2 tab project ctx))
   \<and> bd_pathMatch (res_breakdown (scoreTabForProject cfg now1 tab project ctx))
     = bd_pathMatch (res_breakdown (scoreTabForProject cfg now2 tab project ctx))
   \<and> bd_tokenSimilarity (res_breakdown (scoreTabForProject cfg now1 tab project ctx))
     = bd_tokenSimilarity (res_breakdown (scoreTabForProject cfg now2 tab project ctx))
   \<and> bd_chainProximity (res_breakdown (scoreTabForProject cfg now1 tab project ctx))
     = bd_chainProximity (res_breakdown (scoreTabForProject cfg now2 tab project ctx))"
    by (simp add: scoreTabForProject_def Let_def)
  show ?thesis
    using six v[of c now1] b e[of ctx] e[OF n] e[OF a] unfolding r by blast
qed

theorem scoreTabForProject_clock_witness:
  "ctx_activeProjectId (exContext (Some ''p2'')) \<noteq> Some (proj_projectId (exProject ''p1'' [] 0))
   \<and> bd_recencyBoost (res_breakdown (scoreTabForProject DEFAULT_MATCHER_CONFIG 400000
        (exTab ''example.com'') (exProject ''p1'' [] 0) (Some (exContext (Some ''p2''))))) = 0.6
   \<and> 0 - proj_lastActiveAt (exProject ''p1'' [] 0) < 5 * 60 * 1000
   \<and> 1000 - proj_lastActiveAt (exProject ''p1'' [] 0) < 5 * 60 * 1000
   \<and> scoreTabForProject DEFAULT_MATCHER_CONFIG 0 (exTab ''example.com'')
        (exProject ''p1'' [] 0) (Some (exContext (Some ''p2'')))
     = scoreTabForProject DEFAULT_MATCHER_CONFIG 1000 (exTab ''example.com'')
        (exProject ''p1'' [] 0) (Some (exContext (Some ''p2'')))
   \<and> 5 * 60 * 1000 \<le> 400000 - proj_lastActiveAt (exProject ''p1'' [] 0)
   \<and> 400000 - proj_lastActiveAt (exProject ''p1'' [] 0) < 15 * 60 * 1000
   \<and> 5 * 60 * 1000 \<le> 800000 - proj_lastActiveAt (exProject ''p1'' [] 0)
   \<and> 800000 - proj_lastActiveAt (exProject ''p1'' [] 0) < 15 * 60 * 1000
   \<and> scoreTabForProject DEFAULT_MATCHER_CONFIG 400000 (exTab ''example.com'')
        (exProject ''p1'' [] 0) (Some (exContext (Some ''p2'')))
     = scoreTabForProject DEFAULT_MATCHER_CONFIG 800000 (exTab ''example.com'')
        (exProject ''p1'' [] 0) (Some (exContext (Some ''p2'')))
   \<and> 15 * 60 * 1000 \<le> 1000000 - proj_lastActiveAt (exProject ''p1'' [] 0)
   \<and> 1000000 - proj_lastActiveAt (exProject ''p1'' [] 0) < 30 * 60 * 1000
   \<and> 15 * 60 * 1000 \<le> 1700000 - proj_lastActiveAt (exProject ''p1'' [] 0)
   \<and> 1700000 - proj_lastActiveAt (exProject ''p1'' [] 0) < 30 * 60 * 1000
   \<and> scoreTabForProject DEFAULT_MATCHER_CONFIG 1000000 (exTab ''example.com'')
        (exProject ''p1'' [] 0) (Some (exContext (Some ''p2'')))
     = scoreTabForProject DEFAULT_MATCHER_CONFIG 1700000 (exTab ''example.com'')
        (exProject ''p1'' [] 0) (Some (exContext (Some ''p2'')))
   \<and> 30 * 60 * 1000 \<le> 2000000 - proj_lastActiveAt (exProject ''p1'' [] 0)
   \<and> 30 * 60 * 1000 \<le> 9000000 - proj_lastActiveAt (exProject ''p1'' [] 0)
   \<and> scoreTabForProject DEFAULT_MATCHER_CONFIG 2000000 (exTab ''example.com'')
        (exProject ''p1'' [] 0) (Some (exContext (Some ''p2'')))
     = scoreTabForProject DEFAULT_MATCHER_CONFIG 9000000 (exTab ''example.com'')
        (exProject ''p1'' [] 0) (Some (exContext (Some ''p2'')))
   \<and> ctx_activeProjectId (exContext (Some ''p1'')) = Some (proj_projectId (exProject ''p1'' [] 0))
   \<and> scoreTabForProject DEFAULT_MATCHER_CONFIG 0 (exTab ''example.com'')
        (exProject ''p1'' [] 0) (Some (exContext (Some ''p1'')))
     = scoreTabForProject DEFAULT_MATCHER_CONFIG 600000 (exTab ''example.com'')
        (exProject ''p1'' [] 0) (Some (exContext (Some ''p1'')))"
proof -
  let ?tab = "exTab ''example.com''" and ?p = "exProject ''p1'' [] 0"
  let ?c = "Some (exContext (Some ''p2''))"
  have l: "proj_lastActiveAt ?p = 0" and i: "proj_projectId ?p = ''p1''"
    and c: "ctx_activeProjectId (exContext (Some ''p2'')) = Some ''p2''"
       "ctx_activeProjectId (exContext (Some ''p1'')) = Some ''p1''"
    by (simp_all add: ex_defs)
  have bucket: "scoreTabForProject DEFAULT_MATCHER_CONFIG n1 ?tab ?p ?c
      = scoreTabForProject DEFAULT_MATCHER_CONFIG n2 ?tab ?p ?c"
    if "(n1 - proj_lastActiveAt ?p < 5 * 60 * 1000 \<and> n2 - proj_lastActiveAt ?p < 5 * 60 * 1000)
        \<or> (5 * 60 * 1000 \<le> n1 - proj_lastActiveAt ?p \<and> n1 - proj_lastActiveAt ?p < 15 * 60 * 1000
            \<and> 5 * 60 * 1000 \<le> n2 - proj_lastActiveAt ?p \<and> n2 - proj_lastActiveAt ?p < 15 * 60 * 1000)
        \<or> (15 * 60 * 1000 \<le> n1 - proj_lastActiveAt ?p \<and> n1 - proj_lastActiveAt ?p < 30 * 60 * 1000
            \<and> 15 * 60 * 1000 \<le> n2 - proj_lastActiveAt ?p \<and> n2 - proj_lastActiveAt ?p < 30 * 60 * 1000)
        \<or> (30 * 60 * 1000 \<le> n1 - proj_lastActiveAt ?p \<and> 30 * 60 * 1000 \<le> n2 - proj_lastActiveAt ?p)"
    for n1 n2
    using that scoreTabForProject_clock[of DEFAULT_MATCHER_CONFIG n1 ?tab ?p ?c n2 "exContext (Some ''p1'')"]
    by blast
  have e1: "scoreTabForProject DEFAULT_MATCHER_CONFIG 0 ?tab ?p ?c
      = scoreTabForProject DEFAULT_MATCHER_CONFIG 1000 ?tab ?p ?c"
    by (rule bucket) (simp add: l)
  have e2: "scoreTabForProject DEFAULT_MATCHER_CONFIG 400000 ?tab ?p ?c
      = scoreTabForProject DEFAULT_MATCHER_CONFIG 800000 ?tab ?p ?c"
    by (rule bucket) (simp add: l)
  have e3: "scoreTabForProject DEFAULT_MATCHER_CONFIG 1000000 ?tab ?p ?c
      = scoreTabForProject DEFAULT_MATCHER_CONFIG 1700000 ?tab ?p ?c"
    by (rule bucket) (simp add: l)
  have e4: "scoreTabForProject DEFAULT_MATCHER_CONFIG 2000000 ?tab ?p ?c
      = scoreTabForProject DEFAULT_MATCHER_CONFIG 9000000 ?tab ?p ?c"
    by (rule bucket) (simp add: l)
  have e5: "scoreTabForProject DEFAULT_MATCHER_CONFIG 0 ?tab ?p (Some (exContext (Some ''p1'')))
      = scoreTabForProject DEFAULT_MATCHER_CONFIG 600000 ?tab ?p (Some (exContext (Some ''p1'')))"
    using scoreTabForProject_clock[of DEFAULT_MATCHER_CONFIG 0 ?tab ?p ?c 600000 "exContext (Some ''p1'')"]
    by (simp add: i c)
  have v: "bd_recencyBoost (res_breakdown (scoreTabForProject DEFAULT_MATCHER_CONFIG 400000
        ?tab ?p (Some (exContext (Some ''p2''))))) = 0.6"
    using scoreTabForProject_clock[of DEFAULT_MATCHER_CONFIG 400000 ?tab ?p ?c 0 "exContext (Some ''p2'')"]
    by (simp add: l i c)
  show ?thesis
    by (intro conjI e1 e2 e3 e4 e5 v) (simp_all add: l i c)
qed


text \<open>
  C9 as stated fails: with the same tab, project and context, a reading of the clock at
  the last activity of the project and one ten minutes later give different results (a
  recency boost of 0.9 and of 0.6).
\<close>

theorem scoring_depends_on_clock:
  "scoreTabForProject DEFAULT_MATCHER_CONFIG 0 (exTab ''example.com'')
       (exProject ''p1'' [] 0) (Some (exContext (Some ''p2'')))
   \<noteq> scoreTabForProject DEFAULT_MATCHER_CONFIG 600000 (exTab ''example.com'')
       (exProject ''p1'' [] 0) (Some (exContext (Some ''p2'')))"
proof
  assume "scoreTabForProject DEFAULT_MATCHER_CONFIG 0 (exTab ''example.com'')
       (exProject ''p1'' [] 0) (Some (exContext (Some ''p2'')))
   = scoreTabForProject DEFAULT_MATCHER_CONFIG 600000 (exTab ''example.com'')
       (exProject ''p1'' [] 0) (Some (exContext (Some ''p2'')))"
  then have "res_score (scoreTabForProject DEFAULT_MATCHER_CONFIG 0 (exTab ''example.com'')
       (exProject ''p1'' [] 0) (Some (exContext (Some ''p2''))))
   = res_score (scoreTabForProject DEFAULT_MATCHER_CONFIG 600000 (exTab ''example.com'')
       (exProject ''p1'' [] 0) (Some (exContext (Some ''p2''))))" by simp
  then show False by (simp add: score_defs ex_defs)
qed

subsection \<open>The context tracker\<close>

text \<open>
  C8. updateContext builds the recent tabs from exactly the tabs of the window whose last
  activity is within the 30 minutes before \<open>now\<close>, gives each the weight
  \<open>0.7 * min(1, activeScore / 60000) + 0.3 * (1 - (now - lastActiveAt) / windowMs)\<close>, sorts
  them in descending order of the weight, takes the active project and subproject from the
  tab just activated, and stores the context under the window.
\<close>

theorem updateContext_recentTabs:
  "ctx_recentTabs (fst (updateContext now windowId activatedTab st))
     = sort_desc rt_weight (map (recentActivity now)
         (filter (\<lambda>tab. tab_windowId tab = windowId \<and> now - tab_lastActiveAt tab < 30 * 60 * 1000)
            (db_tabs st)))
   \<and> mset (map rt_tabId (ctx_recentTabs (fst (updateContext now windowId activatedTab st))))
     = mset (map tab_tabId
         (filter (\<lambda>tab. tab_windowId tab = windowId \<and> now - tab_lastActiveAt tab < 30 * 60 * 1000)
            (db_tabs st)))
   \<and> sorted_wrt (\<lambda>a b. rt_weight b \<le> rt_weight a)
        (ctx_recentTabs (fst (updateContext now windowId activatedTab st)))
   \<and> rt_weight (recentActivity now tab)
     = 0.7 * min 1 (real_of_int (tab_activeScore tab) / 60000)
       + 0.3 * (1 - real_of_int (now - tab_lastActiveAt tab) / (30 * 60 * 1000))
   \<and> rt_tabId (recentActivity now tab) = tab_tabId tab
   \<and> rt_projectId (recentActivity now tab) = tab_projectId tab
   \<and> rt_subprojectId (recentActivity now tab) = tab_subprojectId tab
   \<and> ctx_activeProjectId (fst (updateContext now windowId activatedTab st)) = tab_projectId activatedTab
   \<and> ctx_activeSubprojectId (fst (updateContext now windowId activatedTab st)) = tab_subprojectId activatedTab
   \<and> ctx_computedAt (fst (updateContext now windowId activatedTab st)) = now
   \<and> map_of (activeContexts (snd (updateContext now windowId activatedTab st))) windowId
     = Some (fst (updateContext now windowId activatedTab st))"
proof -
  let ?T = "filter (\<lambda>tab. tab_windowId tab = windowId \<and> now - tab_lastActiveAt tab < 30 * 60 * 1000) (db_tabs st)"
  have r: "ctx_recentTabs (fst (updateContext now windowId activatedTab st))
      = sort_desc rt_weight (map (recentActivity now) ?T)"
    by (simp add: updateContext_def Let_def getTabsByWindow_def CONTEXT_WINDOW_MS_def conj_commute)
  have m: "mset (map rt_tabId (sort_desc rt_weight (map (recentActivity now) ?T))) = mset (map tab_tabId ?T)"
  proof -
    have "mset (map rt_tabId (sort_desc rt_weight (map (recentActivity now) ?T)))
        = image_mset rt_tabId (mset (sort_desc rt_weight (map (recentActivity now) ?T)))" by simp
    also have "\<dots> = image_mset rt_tabId (mset (map (recentActivity now) ?T))"
      by (simp only: mset_sort_desc)
    also have "\<dots> = mset (map tab_tabId ?T)"
      by (simp add: recentActivity_def Let_def multiset.map_comp comp_def)
    finally show ?thesis .
  qed
  show ?thesis
    unfolding r m
    by (simp add: sorted_sort_desc)
       (simp add: updateContext_def Let_def recentActivity_def map_of_map_set
          DWELL_TIME_WEIGHT_def RECENCY_WEIGHT_def CONTEXT_WINDOW_MS_def)
qed


subsection \<open>The assignment\<close>

text \<open>
  C6. For a tab with the manual flag set and a project id that is not empty,
  assignTabToProject returns the method \<open>manual\<close> with confidence 1 and the ids of the
  tab, and leaves the tab and the whole state as they were: the stores of tabs and
  projects, the contexts and the project cache. The result does not depend on the
  projects, so nothing is scored.
\<close>

theorem manual_assignment_frame:
  assumes "tab_manuallyAssigned tab = Some True"
    and "tab_projectId tab = Some pid" and "pid \<noteq> []"
  shows "assignTabToProject now rndSub rndProj tab windowId st =
      (\<lparr>asg_tabId = tab_tabId tab, asg_projectId = pid, asg_subprojectId = tab_subprojectId tab,
        asg_confidence = 1.0, asg_method = Manual\<rparr>, tab, st)"
  using assms by (simp add: assignTabToProject_def)

theorem manual_assignment_frame_witness:
  "tab_manuallyAssigned ((exTab ''example.com'')\<lparr>tab_projectId := Some ''p1'', tab_manuallyAssigned := Some True\<rparr>) = Some True
   \<and> tab_projectId ((exTab ''example.com'')\<lparr>tab_projectId := Some ''p1'', tab_manuallyAssigned := Some True\<rparr>) = Some ''p1''
   \<and> ''p1'' \<noteq> []
   \<and> assignTabToProject 0 ''r1'' ''r2''
        ((exTab ''example.com'')\<lparr>tab_projectId := Some ''p1'', tab_manuallyAssigned := Some True\<rparr>) 1
        (exState [exProject ''p2'' [exRule Host ''example.com''] 0])
      = (\<lparr>asg_tabId = 1, asg_projectId = ''p1'', asg_subprojectId = None,
          asg_confidence = 1.0, asg_method = Manual\<rparr>,
         (exTab ''example.com'')\<lparr>tab_projectId := Some ''p1'', tab_manuallyAssigned := Some True\<rparr>,
         exState [exProject ''p2'' [exRule Host ''example.com''] 0])"
proof -
  let ?tab = "(exTab ''example.com'')\<lparr>tab_projectId := Some ''p1'', tab_manuallyAssigned := Some True\<rparr>"
  have h1: "tab_manuallyAssigned ?tab = Some True" by simp
  have h2: "tab_projectId ?tab = Some ''p1''" by simp
  have h3: "''p1'' \<noteq> []" by simp
  have t: "tab_tabId ?tab = 1" "tab_subprojectId ?tab = None" by (simp_all add: exTab_def)
  show ?thesis
    using manual_assignment_frame[OF h1 h2 h3, of 0 "''r1''" "''r2''" 1
        "exState [exProject ''p2'' [exRule Host ''example.com''] 0]"] h1 h2 h3
    by (simp only: t) simp
qed


subsection \<open>The best match and the threshold of the assignment\<close>

lemma scoreHostMatch_rules_host:
  "list_ex (\<lambda>r. rule_type r = Host \<and> rule_value r = tab_host tab) rules \<Longrightarrow>
   scoreHostMatch_rules tab rules = Some 1 \<or> scoreHostMatch_rules tab rules = Some 0.8"
  by (induction rules) auto

lemma scoreHostMatch_rules_first:
  "find_first (\<lambda>r. rule_type r = Host \<and> tab_host tab = rule_value r
                  \<or> rule_type r = Domain \<and> tabDomain (tab_host tab) = rule_value r) rules = Some r
   \<Longrightarrow> rule_type r = Host \<Longrightarrow> scoreHostMatch_rules tab rules = Some 1"
  by (induction rules) (auto split: if_splits)

lemma narrowCandidates_subset: "set (narrowCandidates now tab ps) \<subseteq> set ps"
proof -
  have "set (take 15 (sort_desc proj_lastActiveAt (filter P ps))) \<subseteq> set ps" for P
    using set_take_subset[of 15 "sort_desc proj_lastActiveAt (filter P ps)"]
    by (auto simp: set_sort_desc)
  moreover have "set (take 20 ps) \<subseteq> set ps" by (rule set_take_subset)
  ultimately show ?thesis
    unfolding narrowCandidates_def Let_def by (auto split: if_splits)
qed

lemma narrowCandidates_host:
  assumes "p \<in> set ps"
    and "list_ex (\<lambda>r. rule_type r = Host \<and> rule_value r = tab_host tab) (proj_rules p)"
  shows "p \<in> set (narrowCandidates now tab ps)"
proof -
  let ?H = "filter (\<lambda>p. list_ex (\<lambda>sp. sig_host (sub_signature sp) = tab_host tab) (proj_subprojects p)
                       \<or> list_ex (\<lambda>r. rule_type r = Host \<and> rule_value r = tab_host tab) (proj_rules p)) ps"
  have "p \<in> set ?H" using assms by simp
  then have "?H \<noteq> []" by (metis empty_iff empty_set)
  then have "narrowCandidates now tab ps = ?H"
    unfolding narrowCandidates_def Let_def by simp
  then show ?thesis using \<open>p \<in> set ?H\<close> by simp
qed

lemma sort_desc_head:
  fixes f :: "'a \<Rightarrow> real"
  assumes "sort_desc f xs = b # rest" and "y \<in> set xs"
  shows "f y \<le> f b"
proof -
  have s: "sorted_wrt (\<lambda>a b. f b \<le> f a) (b # rest)"
    using sorted_sort_desc[of f xs] assms(1) by simp
  have "y \<in> set (b # rest)" using assms by (metis set_sort_desc)
  then show ?thesis using s by auto
qed

lemma getBestMatch_Some:
  assumes "getBestMatch cfg now tab ps ctx = Some best"
  shows "\<exists>q \<in> set ps. best = scoreTabForProject cfg now tab q ctx"
    and "cfg_minThreshold cfg \<le> res_score best"
proof -
  let ?xs = "filter (\<lambda>result. res_score result \<ge> cfg_minThreshold cfg)
          (map (\<lambda>project. scoreTabForProject cfg now tab project ctx) (narrowCandidates now tab ps))"
  obtain rest where "sort_desc res_score ?xs = best # rest"
    using assms by (auto simp: getBestMatch_def scoreAllProjects_def Let_def split: list.splits)
  then have "best \<in> set (sort_desc res_score ?xs)" by simp
  then have b: "best \<in> set ?xs" by (simp only: set_sort_desc)
  then show "cfg_minThreshold cfg \<le> res_score best" by simp
  from b obtain q where "q \<in> set (narrowCandidates now tab ps)"
      "best = scoreTabForProject cfg now tab q ctx" by auto
  then show "\<exists>q \<in> set ps. best = scoreTabForProject cfg now tab q ctx"
    using narrowCandidates_subset by blast
qed

lemma getBestMatch_ge:
  assumes "p \<in> set (narrowCandidates now tab ps)"
    and "cfg_minThreshold cfg \<le> res_score (scoreTabForProject cfg now tab p ctx)"
  shows "\<exists>best. getBestMatch cfg now tab ps ctx = Some best
           \<and> res_score (scoreTabForProject cfg now tab p ctx) \<le> res_score best"
proof -
  let ?xs = "filter (\<lambda>result. res_score result \<ge> cfg_minThreshold cfg)
          (map (\<lambda>project. scoreTabForProject cfg now tab project ctx) (narrowCandidates now tab ps))"
  have m: "scoreTabForProject cfg now tab p ctx \<in> set ?xs" using assms by auto
  then have "sort_desc res_score ?xs \<noteq> []"
    by (metis empty_iff empty_set sort_desc_Nil_iff)
  then obtain b rest where br: "sort_desc res_score ?xs = b # rest"
    by (cases "sort_desc res_score ?xs") auto
  then have "getBestMatch cfg now tab ps ctx = Some b"
    by (simp add: getBestMatch_def scoreAllProjects_def Let_def)
  moreover have "res_score (scoreTabForProject cfg now tab p ctx) \<le> res_score b"
    using sort_desc_head[OF br m] .
  ultimately show ?thesis by blast
qed

lemma res_score_sum:
  "res_score (scoreTabForProject cfg now tab project ctx)
     = cfg_hostMatchWeight cfg * scoreHostMatch tab project
       + cfg_pathMatchWeight cfg * scorePathMatch tab project
       + cfg_tokenWeight cfg * scoreTokenSimilarity tab project
       + cfg_chainWeight cfg * scoreChainProximity tab project ctx
       + cfg_recencyWeight cfg * scoreRecencyBoost now project ctx"
  by (simp add: scoreTabForProject_def Let_def)

lemma res_score_default:
  "res_score (scoreTabForProject DEFAULT_MATCHER_CONFIG now tab project ctx)
     = 3.0 * scoreHostMatch tab project + 2.0 * scorePathMatch tab project
       + 1.5 * scoreTokenSimilarity tab project + 2.0 * scoreChainProximity tab project ctx
       + 1.0 * scoreRecencyBoost now project ctx"
  by (simp add: res_score_sum DEFAULT_MATCHER_CONFIG_def)

lemma assign_not_manual:
  assumes "\<not> (tab_manuallyAssigned tab = Some True \<and> truthy (tab_projectId tab))"
    and "getBestMatch DEFAULT_MATCHER_CONFIG now tab (db_projects st)
           (Some (fst (updateContext now windowId tab st))) = Some best"
    and "0.5 < res_score best" and "db_projects st \<noteq> []"
  shows "fst (assignTabToProject now rndSub rndProj tab windowId st)
      = \<lparr>asg_tabId = tab_tabId tab, asg_projectId = res_projectId best,
         asg_subprojectId = res_subprojectId best, asg_confidence = res_score best,
         asg_method = (if res_score best > 0.8 then Deterministic else Semantic)\<rparr>"
  using assms
  by (simp add: assignTabToProject_def getAllProjects_def commitMatch_def Let_def
      case_prod_beta)

lemma scoreHostMatch_rules_find:
  "scoreHostMatch_rules tab rules =
     (case find_first (\<lambda>r. rule_type r = Host \<and> tab_host tab = rule_value r
                  \<or> rule_type r = Domain \<and> tabDomain (tab_host tab) = rule_value r) rules of
        None \<Rightarrow> None
      | Some r \<Rightarrow> if rule_type r = Host then Some 1.0 else Some 0.8)"
  by (induction rules) auto

text \<open>
  C1, as amended. The total of scoreTabForProject is the raw weighted sum
  \<open>3.0 * hostMatch + 2.0 * pathMatch + 1.5 * tokenSimilarity + 2.0 * chainProximity +
  1.0 * recencyBoost\<close>, compared with the thresholds as it is. For a project with a
  host rule equal to the host of the tab, and the other four scores 0, the total is
  \<open>3.0 * hostMatch\<close>: the host score is 1.0 and the total 3.0 when the first rule of the
  project that matches the tab is that host rule, and the host score is 0.8 and the total
  \<open>3.0 * 0.8\<close> when a domain rule that matches the tab stands before it (scoreHostMatch
  returns at the first rule that matches). In both cases the total exceeds 0.5 and 0.8,
  and for a tab that is not manually assigned (the manual flag is not set or the tab has
  no project id) and a state that holds the project, assignTabToProject commits with the
  method \<open>deterministic\<close> and a confidence of at least that total.
\<close>

theorem host_rule_match_scores:
  assumes "list_ex (\<lambda>r. rule_type r = Host \<and> rule_value r = tab_host tab) (proj_rules project)"
    and "scorePathMatch tab project = 0" and "scoreTokenSimilarity tab project = 0"
    and "scoreChainProximity tab project ctx = 0" and "scoreRecencyBoost now project ctx = 0"
  shows "res_score (scoreTabForProject DEFAULT_MATCHER_CONFIG now tab project ctx)
      = 3.0 * scoreHostMatch tab project + 2.0 * scorePathMatch tab project
        + 1.5 * scoreTokenSimilarity tab project + 2.0 * scoreChainProximity tab project ctx
        + 1.0 * scoreRecencyBoost now project ctx
    \<and> res_score (scoreTabForProject DEFAULT_MATCHER_CONFIG now tab project ctx)
      = 3.0 * scoreHostMatch tab project
    \<and> (scoreHostMatch tab project = 1.0 \<or> scoreHostMatch tab project = 0.8)
    \<and> ((\<exists>r. find_first (\<lambda>r. rule_type r = Host \<and> tab_host tab = rule_value r
                  \<or> rule_type r = Domain \<and> tabDomain (tab_host tab) = rule_value r)
               (proj_rules project) = Some r \<and> rule_type r = Host) \<longrightarrow>
         scoreHostMatch tab project = 1.0
         \<and> res_score (scoreTabForProject DEFAULT_MATCHER_CONFIG now tab project ctx) = 3.0)
    \<and> ((\<exists>r. find_first (\<lambda>r. rule_type r = Host \<and> tab_host tab = rule_value r
                  \<or> rule_type r = Domain \<and> tabDomain (tab_host tab) = rule_value r)
               (proj_rules project) = Some r \<and> rule_type r = Domain) \<longrightarrow>
         scoreHostMatch tab project = 0.8
         \<and> res_score (scoreTabForProject DEFAULT_MATCHER_CONFIG now tab project ctx) = 3.0 * 0.8)
    \<and> 0.5 < res_score (scoreTabForProject DEFAULT_MATCHER_CONFIG now tab project ctx)
    \<and> 0.8 < res_score (scoreTabForProject DEFAULT_MATCHER_CONFIG now tab project ctx)
    \<and> (project \<in> set (db_projects st)
         \<and> \<not> (tab_manuallyAssigned tab = Some True \<and> truthy (tab_projectId tab))
         \<and> ctx = Some (fst (updateContext now windowId tab st)) \<longrightarrow>
         asg_method (fst (assignTabToProject now rndSub rndProj tab windowId st)) = Deterministic
         \<and> res_score (scoreTabForProject DEFAULT_MATCHER_CONFIG now tab project ctx)
             \<le> asg_confidence (fst (assignTabToProject now rndSub rndProj tab windowId st)))"
proof -
  let ?s = "res_score (scoreTabForProject DEFAULT_MATCHER_CONFIG now tab project ctx)"
  let ?M = "\<lambda>r. rule_type r = Host \<and> tab_host tab = rule_value r
                  \<or> rule_type r = Domain \<and> tabDomain (tab_host tab) = rule_value r"
  have h: "scoreHostMatch tab project = 1.0 \<or> scoreHostMatch tab project = 0.8"
    using scoreHostMatch_rules_host[OF assms(1)] by (auto simp: scoreHostMatch_def)
  have s: "?s = 3.0 * scoreHostMatch tab project"
    using assms(2-5) by (simp add: res_score_default)
  have fh: "scoreHostMatch tab project = 1.0"
    if "find_first ?M (proj_rules project) = Some r" "rule_type r = Host" for r
    using that by (simp add: scoreHostMatch_def scoreHostMatch_rules_find)
  have fd: "scoreHostMatch tab project = 0.8"
    if "find_first ?M (proj_rules project) = Some r" "rule_type r = Domain" for r
    using that by (simp add: scoreHostMatch_def scoreHostMatch_rules_find)
  have big: "0.5 < ?s" "0.8 < ?s" using h s by auto
  have a: "asg_method (fst (assignTabToProject now rndSub rndProj tab windowId st)) = Deterministic
         \<and> ?s \<le> asg_confidence (fst (assignTabToProject now rndSub rndProj tab windowId st))"
    if p: "project \<in> set (db_projects st)"
      and m: "\<not> (tab_manuallyAssigned tab = Some True \<and> truthy (tab_projectId tab))"
      and c: "ctx = Some (fst (updateContext now windowId tab st))"
  proof -
    have "project \<in> set (narrowCandidates now tab (db_projects st))"
      using p assms(1) by (rule narrowCandidates_host)
    moreover have "cfg_minThreshold DEFAULT_MATCHER_CONFIG \<le> ?s"
      using big by (simp add: DEFAULT_MATCHER_CONFIG_def)
    ultimately obtain best where
      b: "getBestMatch DEFAULT_MATCHER_CONFIG now tab (db_projects st) ctx = Some best"
      and ge: "?s \<le> res_score best"
      using getBestMatch_ge by blast
    have bb: "0.8 < res_score best" "0.5 < res_score best" using ge big by auto
    have ne: "db_projects st \<noteq> []" using p by auto
    show ?thesis
      using assign_not_manual[OF m b[unfolded c] bb(2) ne, of rndSub rndProj] bb(1) ge
      by simp
  qed
  have "?s = 3.0 * scoreHostMatch tab project + 2.0 * scorePathMatch tab project
        + 1.5 * scoreTokenSimilarity tab project + 2.0 * scoreChainProximity tab project ctx
        + 1.0 * scoreRecencyBoost now project ctx"
    by (rule res_score_default)
  moreover have "(\<exists>r. find_first ?M (proj_rules project) = Some r \<and> rule_type r = Host) \<longrightarrow>
         scoreHostMatch tab project = 1.0 \<and> ?s = 3.0"
    using fh s by auto
  moreover have "(\<exists>r. find_first ?M (proj_rules project) = Some r \<and> rule_type r = Domain) \<longrightarrow>
         scoreHostMatch tab project = 0.8 \<and> ?s = 3.0 * 0.8"
    using fd s by auto
  ultimately show ?thesis using s h big a by blast
qed

theorem host_rule_match_scores_witness:
  "list_ex (\<lambda>r. rule_type r = Host \<and> rule_value r = tab_host (exTab ''github.com''))
      (proj_rules (exProject ''p1'' [exRule Host ''github.com''] 0))
   \<and> scorePathMatch (exTab ''github.com'') (exProject ''p1'' [exRule Host ''github.com''] 0) = 0
   \<and> scoreTokenSimilarity (exTab ''github.com'') (exProject ''p1'' [exRule Host ''github.com''] 0) = 0
   \<and> scoreChainProximity (exTab ''github.com'') (exProject ''p1'' [exRule Host ''github.com''] 0)
        (Some (fst (updateContext 3600000 1 (exTab ''github.com'')
           (exState [exProject ''p1'' [exRule Host ''github.com''] 0])))) = 0
   \<and> scoreRecencyBoost 3600000 (exProject ''p1'' [exRule Host ''github.com''] 0)
        (Some (fst (updateContext 3600000 1 (exTab ''github.com'')
           (exState [exProject ''p1'' [exRule Host ''github.com''] 0])))) = 0
   \<and> find_first (\<lambda>r. rule_type r = Host \<and> tab_host (exTab ''github.com'') = rule_value r
                  \<or> rule_type r = Domain \<and> tabDomain (tab_host (exTab ''github.com'')) = rule_value r)
        (proj_rules (exProject ''p1'' [exRule Host ''github.com''] 0))
      = Some (exRule Host ''github.com'')
   \<and> exProject ''p1'' [exRule Host ''github.com''] 0
        \<in> set (db_projects (exState [exProject ''p1'' [exRule Host ''github.com''] 0]))
   \<and> \<not> (tab_manuallyAssigned (exTab ''github.com'') = Some True
          \<and> truthy (tab_projectId (exTab ''github.com'')))
   \<and> scoreHostMatch (exTab ''github.com'') (exProject ''p1'' [exRule Host ''github.com''] 0) = 1.0
   \<and> res_score (scoreTabForProject DEFAULT_MATCHER_CONFIG 3600000 (exTab ''github.com'')
        (exProject ''p1'' [exRule Host ''github.com''] 0)
        (Some (fst (updateContext 3600000 1 (exTab ''github.com'')
           (exState [exProject ''p1'' [exRule Host ''github.com''] 0]))))) = 3.0
   \<and> asg_method (fst (assignTabToProject 3600000 ''r1'' ''r2'' (exTab ''github.com'') 1
        (exState [exProject ''p1'' [exRule Host ''github.com''] 0]))) = Deterministic
   \<and> 3.0 \<le> asg_confidence (fst (assignTabToProject 3600000 ''r1'' ''r2'' (exTab ''github.com'') 1
        (exState [exProject ''p1'' [exRule Host ''github.com''] 0])))
   \<and> list_ex (\<lambda>r. rule_type r = Host \<and> rule_value r = tab_host (exTab ''github.com''))
      (proj_rules (exProject ''p1'' [exRule Domain ''github.com'', exRule Host ''github.com''] 0))
   \<and> find_first (\<lambda>r. rule_type r = Host \<and> tab_host (exTab ''github.com'') = rule_value r
                  \<or> rule_type r = Domain \<and> tabDomain (tab_host (exTab ''github.com'')) = rule_value r)
        (proj_rules (exProject ''p1'' [exRule Domain ''github.com'', exRule Host ''github.com''] 0))
      = Some (exRule Domain ''github.com'')
   \<and> scoreHostMatch (exTab ''github.com'')
        (exProject ''p1'' [exRule Domain ''github.com'', exRule Host ''github.com''] 0) = 0.8
   \<and> res_score (scoreTabForProject DEFAULT_MATCHER_CONFIG 0 (exTab ''github.com'')
        (exProject ''p1'' [exRule Domain ''github.com'', exRule Host ''github.com''] 0) None)
      = 3.0 * 0.8
   \<and> 0.8 < res_score (scoreTabForProject DEFAULT_MATCHER_CONFIG 0 (exTab ''github.com'')
        (exProject ''p1'' [exRule Domain ''github.com'', exRule Host ''github.com''] 0) None)"
proof -
  let ?tab = "exTab ''github.com''"
  let ?p = "exProject ''p1'' [exRule Host ''github.com''] 0"
  let ?q = "exProject ''p1'' [exRule Domain ''github.com'', exRule Host ''github.com''] 0"
  let ?st = "exState [?p]"
  let ?ctx = "Some (fst (updateContext 3600000 1 ?tab ?st))"
  let ?M = "\<lambda>r. rule_type r = Host \<and> tab_host ?tab = rule_value r
                  \<or> rule_type r = Domain \<and> tabDomain (tab_host ?tab) = rule_value r"
  have h1: "list_ex (\<lambda>r. rule_type r = Host \<and> rule_value r = tab_host ?tab) (proj_rules ?p)"
    by (simp add: ex_defs)
  have h2: "scorePathMatch ?tab ?p = 0" by (simp add: scorePathMatch_def ex_defs)
  have h3: "scoreTokenSimilarity ?tab ?p = 0"
    by (simp add: scoreTokenSimilarity_def weightedTokenSimilarity_def cosineSimilarity_def
        jaccardSimilarity_def exProject_def)
  have h4: "scoreChainProximity ?tab ?p ?ctx = 0"
    by (simp add: scoreChainProximity_def updateContext_def getTabsByWindow_def sort_desc_def
        Let_def ex_defs)
  have h5: "scoreRecencyBoost 3600000 ?p ?ctx = 0"
    by (simp add: scoreRecencyBoost_def updateContext_def Let_def ex_defs)
  have f: "find_first ?M (proj_rules ?p) = Some (exRule Host ''github.com'')"
    and ft: "rule_type (exRule Host ''github.com'') = Host"
    by (simp_all add: ex_defs)
  have m: "?p \<in> set (db_projects ?st)"
    "\<not> (tab_manuallyAssigned ?tab = Some True \<and> truthy (tab_projectId ?tab))"
    by (simp_all add: exState_def exTab_def)
  note t = host_rule_match_scores[OF h1 h2 h3 h4 h5, of ?st 1 "''r1''" "''r2''"]
  have r1: "scoreHostMatch ?tab ?p = 1.0
    \<and> res_score (scoreTabForProject DEFAULT_MATCHER_CONFIG 3600000 ?tab ?p ?ctx) = 3.0"
    using t f ft by blast
  have r2: "asg_method (fst (assignTabToProject 3600000 ''r1'' ''r2'' ?tab 1 ?st)) = Deterministic
    \<and> res_score (scoreTabForProject DEFAULT_MATCHER_CONFIG 3600000 ?tab ?p ?ctx)
        \<le> asg_confidence (fst (assignTabToProject 3600000 ''r1'' ''r2'' ?tab 1 ?st))"
    using t m by blast
  have g1: "list_ex (\<lambda>r. rule_type r = Host \<and> rule_value r = tab_host ?tab) (proj_rules ?q)"
    by (simp add: ex_defs)
  have g2: "scorePathMatch ?tab ?q = 0" by (simp add: scorePathMatch_def ex_defs)
  have g3: "scoreTokenSimilarity ?tab ?q = 0"
    by (simp add: scoreTokenSimilarity_def weightedTokenSimilarity_def cosineSimilarity_def
        jaccardSimilarity_def exProject_def)
  have g4: "scoreChainProximity ?tab ?q None = 0" by (simp add: scoreChainProximity_def)
  have g5: "scoreRecencyBoost 0 ?q None = 0" by (simp add: scoreRecencyBoost_def)
  have g: "find_first ?M (proj_rules ?q) = Some (exRule Domain ''github.com'')"
    and gt: "rule_type (exRule Domain ''github.com'') = Domain"
    by (simp_all add: tabDomain_def slice_last2_def ex_defs)
  note u = host_rule_match_scores[OF g1 g2 g3 g4 g5, of ?st 1 "''r1''" "''r2''"]
  have r3: "scoreHostMatch ?tab ?q = 0.8
    \<and> res_score (scoreTabForProject DEFAULT_MATCHER_CONFIG 0 ?tab ?q None) = 3.0 * 0.8"
    using u g gt by blast
  have r4: "0.8 < res_score (scoreTabForProject DEFAULT_MATCHER_CONFIG 0 ?tab ?q None)"
    using u by blast
  show ?thesis
    using h1 h2 h3 h4 h5 f m r1 r2 g1 g r3 r4 by simp
qed

text \<open>
  C1 as stated fails: the project below has a host rule equal to the host of the tab and
  all other scores are 0, yet a matching domain rule stands first, the host score is 0.8
  and the total is \<open>3.0 * 0.8\<close>, below 3.0.
\<close>

theorem domain_rule_before_host_rule:
  "list_ex (\<lambda>r. rule_type r = Host \<and> rule_value r = tab_host (exTab ''github.com''))
      (proj_rules (exProject ''p1'' [exRule Domain ''github.com'', exRule Host ''github.com''] 0))
   \<and> scorePathMatch (exTab ''github.com'')
        (exProject ''p1'' [exRule Domain ''github.com'', exRule Host ''github.com''] 0) = 0
   \<and> scoreTokenSimilarity (exTab ''github.com'')
        (exProject ''p1'' [exRule Domain ''github.com'', exRule Host ''github.com''] 0) = 0
   \<and> scoreChainProximity (exTab ''github.com'')
        (exProject ''p1'' [exRule Domain ''github.com'', exRule Host ''github.com''] 0) None = 0
   \<and> scoreRecencyBoost 0
        (exProject ''p1'' [exRule Domain ''github.com'', exRule Host ''github.com''] 0) None = 0
   \<and> scoreHostMatch (exTab ''github.com'')
        (exProject ''p1'' [exRule Domain ''github.com'', exRule Host ''github.com''] 0) = 0.8
   \<and> res_score (scoreTabForProject DEFAULT_MATCHER_CONFIG 0 (exTab ''github.com'')
        (exProject ''p1'' [exRule Domain ''github.com'', exRule Host ''github.com''] 0) None)
      = 3.0 * 0.8
   \<and> res_score (scoreTabForProject DEFAULT_MATCHER_CONFIG 0 (exTab ''github.com'')
        (exProject ''p1'' [exRule Domain ''github.com'', exRule Host ''github.com''] 0) None) < 3.0
   \<and> res_score (scoreTabForProject DEFAULT_MATCHER_CONFIG 0 (exTab ''github.com'')
        (exProject ''p1'' [exRule Domain ''github.com'', exRule Host ''github.com''] 0) None) \<noteq> 3.0"
  by (simp add: score_defs tabDomain_def slice_last2_def ex_defs)


subsection \<open>The confidence of an assignment\<close>

lemma assignNewProject_fst:
  "asg_method (fst (assignNewProject now rndSub rndProj tab st)) = Default
   \<and> asg_confidence (fst (assignNewProject now rndSub rndProj tab st)) = 1"
  by (simp add: assignNewProject_def Let_def case_prod_beta)

lemma commitMatch_fst:
  "asg_method (fst (commitMatch now best tab st)) = (if res_score best > 0.8 then Deterministic else Semantic)
   \<and> asg_confidence (fst (commitMatch now best tab st)) = res_score best
   \<and> asg_projectId (fst (commitMatch now best tab st)) = res_projectId best"
  by (simp add: commitMatch_def Let_def)

lemma exTab_github_scores:
  "scoreHostMatch (exTab ''github.com'') (exProject ''p1'' [exRule Host ''github.com''] 0) = 1"
  "scorePathMatch (exTab ''github.com'') (exProject ''p1'' [exRule Host ''github.com''] 0) = 0"
  "scoreTokenSimilarity (exTab ''github.com'') (exProject ''p1'' [exRule Host ''github.com''] 0) = 0"
  "scoreChainProximity (exTab ''github.com'') (exProject ''p1'' [exRule Host ''github.com''] 0)
     (Some (fst (updateContext 3600000 1 (exTab ''github.com'')
        (exState [exProject ''p1'' [exRule Host ''github.com''] 0])))) = 0"
  "scoreRecencyBoost 3600000 (exProject ''p1'' [exRule Host ''github.com''] 0)
     (Some (fst (updateContext 3600000 1 (exTab ''github.com'')
        (exState [exProject ''p1'' [exRule Host ''github.com''] 0])))) = 0"
  by (simp_all add: score_defs updateContext_def getTabsByWindow_def sort_desc_def ex_defs)

lemma assign_single_project_conf:
  assumes "\<not> (tab_manuallyAssigned tab = Some True \<and> truthy (tab_projectId tab))"
    and "db_projects st = [p]"
    and "0.5 < res_score (scoreTabForProject DEFAULT_MATCHER_CONFIG now tab p
                 (Some (fst (updateContext now windowId tab st))))"
  shows "asg_method (fst (assignTabToProject now rndSub rndProj tab windowId st))
      = (if 0.8 < res_score (scoreTabForProject DEFAULT_MATCHER_CONFIG now tab p
                 (Some (fst (updateContext now windowId tab st))))
         then Deterministic else Semantic)
    \<and> asg_confidence (fst (assignTabToProject now rndSub rndProj tab windowId st))
        = res_score (scoreTabForProject DEFAULT_MATCHER_CONFIG now tab p
                 (Some (fst (updateContext now windowId tab st))))"
proof -
  let ?ctx = "Some (fst (updateContext now windowId tab st))"
  let ?r = "scoreTabForProject DEFAULT_MATCHER_CONFIG now tab p ?ctx"
  have "narrowCandidates now tab [p] = [p]"
    by (simp add: narrowCandidates_def Let_def sort_desc_def)
  then have "getBestMatch DEFAULT_MATCHER_CONFIG now tab (db_projects st) ?ctx = Some ?r"
    using assms(2,3)
    by (simp add: getBestMatch_def scoreAllProjects_def sort_desc_def Let_def DEFAULT_MATCHER_CONFIG_def)
  from assign_not_manual[OF assms(1) this, of rndSub rndProj] assms(2,3)
  show ?thesis by simp
qed

lemma exStateAhead_context:
  "fst (updateContext 0 1 (exTab ''github.com'') exStateAhead)
     = \<lparr>ctx_windowId = 1, ctx_activeProjectId = None, ctx_activeSubprojectId = None,
        ctx_recentTabs = [\<lparr>rt_tabId = 2, rt_projectId = Some ''p1'', rt_subprojectId = None,
                           rt_lastActiveAt = 18000000, rt_dwellTime = 60000, rt_weight = 4\<rparr>],
        ctx_computedAt = 0\<rparr>"
  by (simp add: updateContext_def getTabsByWindow_def recentActivity_def sort_desc_def Let_def
      CONTEXT_WINDOW_MS_def DWELL_TIME_WEIGHT_def RECENCY_WEIGHT_def
      exStateAhead_def exStoredTab_def exTab_def)

text \<open>
  C10, as amended. When assignTabToProject returns the method \<open>deterministic\<close> or
  \<open>semantic\<close>, the confidence is the total of the best match, the raw weighted sum of the
  five scores of a stored project, above 0.5 and not clamped; the method is
  \<open>deterministic\<close> exactly when it is above 0.8. With \<open>manual\<close> and \<open>default\<close> the
  confidence is 1, and no other method is returned. The confidence can exceed 1 (3.0 for
  a host rule alone) and is not bounded by 9.5 either.
\<close>

theorem assignment_confidence:
  fixes now :: int and rndSub rndProj :: string and tab :: TabMeta and windowId :: int and st :: State
  defines "a \<equiv> fst (assignTabToProject now rndSub rndProj tab windowId st)"
    and "ctx \<equiv> fst (updateContext now windowId tab st)"
  shows "(asg_method a = Deterministic \<or> asg_method a = Semantic \<longrightarrow>
      (\<exists>p \<in> set (db_projects st).
         getBestMatch DEFAULT_MATCHER_CONFIG now tab (db_projects st) (Some ctx)
           = Some (scoreTabForProject DEFAULT_MATCHER_CONFIG now tab p (Some ctx))
         \<and> asg_projectId a = proj_projectId p
         \<and> asg_confidence a = res_score (scoreTabForProject DEFAULT_MATCHER_CONFIG now tab p (Some ctx))
         \<and> asg_confidence a
             = 3.0 * scoreHostMatch tab p + 2.0 * scorePathMatch tab p
               + 1.5 * scoreTokenSimilarity tab p + 2.0 * scoreChainProximity tab p (Some ctx)
               + 1.0 * scoreRecencyBoost now p (Some ctx)
         \<and> 0.5 < asg_confidence a
         \<and> (asg_method a = Deterministic) = (0.8 < asg_confidence a)))
    \<and> (asg_method a = Manual \<or> asg_method a = Default \<longrightarrow> asg_confidence a = 1)
    \<and> asg_method a \<noteq> Context"
proof -
  let ?bm = "getBestMatch DEFAULT_MATCHER_CONFIG now tab (db_projects st) (Some ctx)"
  let ?commit = "\<exists>best. ?bm = Some best \<and> 0.5 < res_score best
      \<and> a = fst (commitMatch now best tab (snd (updateContext now windowId tab st)))"
  let ?simple = "(asg_method a = Manual \<or> asg_method a = Default) \<and> asg_confidence a = 1"
  have cases: "?simple \<or> ?commit"
  proof (cases "tab_manuallyAssigned tab = Some True \<and> truthy (tab_projectId tab)")
    case True
    then show ?thesis by (simp add: a_def assignTabToProject_def)
  next
    case nm: False
    show ?thesis
    proof (cases "db_projects st = []")
      case True
      then have "a = fst (assignNewProject now rndSub rndProj tab st)"
        unfolding a_def assignTabToProject_def if_not_P[OF nm]
        by (simp add: getAllProjects_def)
      then show ?thesis using assignNewProject_fst by simp
    next
      case ne: False
      have unf: "a = fst (case ?bm of
               None \<Rightarrow> assignNewProject now rndSub rndProj tab (snd (updateContext now windowId tab st))
             | Some best \<Rightarrow>
                 if res_score best > 0.5
                 then commitMatch now best tab (snd (updateContext now windowId tab st))
                 else assignNewProject now rndSub rndProj tab (snd (updateContext now windowId tab st)))"
        using ne unfolding a_def ctx_def assignTabToProject_def if_not_P[OF nm]
        by (simp add: getAllProjects_def Let_def case_prod_beta split: option.splits)
      show ?thesis
      proof (cases ?bm)
        case None
        then show ?thesis using unf assignNewProject_fst by simp
      next
        case (Some best)
        then show ?thesis using unf assignNewProject_fst by (cases "res_score best > 0.5") auto
      qed
    qed
  qed
  have commit: "\<exists>p \<in> set (db_projects st).
         ?bm = Some (scoreTabForProject DEFAULT_MATCHER_CONFIG now tab p (Some ctx))
         \<and> asg_projectId a = proj_projectId p
         \<and> asg_confidence a = res_score (scoreTabForProject DEFAULT_MATCHER_CONFIG now tab p (Some ctx))
         \<and> 0.5 < asg_confidence a
         \<and> (asg_method a = Deterministic) = (0.8 < asg_confidence a)
         \<and> (asg_method a = Deterministic \<or> asg_method a = Semantic)"
    if ?commit
  proof -
    from that obtain best where b: "?bm = Some best" "0.5 < res_score best"
      "a = fst (commitMatch now best tab (snd (updateContext now windowId tab st)))" by blast
    from getBestMatch_Some(1)[OF b(1)] obtain p where p: "p \<in> set (db_projects st)"
      "best = scoreTabForProject DEFAULT_MATCHER_CONFIG now tab p (Some ctx)" by blast
    have "res_projectId best = proj_projectId p"
      using p(2) by (simp add: scoreTabForProject_def Let_def)
    then show ?thesis using b p commitMatch_fst[of now best tab "snd (updateContext now windowId tab st)"]
      by (intro bexI[of _ p]) auto
  qed
  show ?thesis
  proof (cases ?commit)
    case True
    from commit[OF True] obtain p where p: "p \<in> set (db_projects st)"
         "?bm = Some (scoreTabForProject DEFAULT_MATCHER_CONFIG now tab p (Some ctx))"
         "asg_projectId a = proj_projectId p"
         "asg_confidence a = res_score (scoreTabForProject DEFAULT_MATCHER_CONFIG now tab p (Some ctx))"
         "0.5 < asg_confidence a"
         "(asg_method a = Deterministic) = (0.8 < asg_confidence a)"
         "asg_method a = Deterministic \<or> asg_method a = Semantic" by blast
    have "\<exists>p \<in> set (db_projects st).
         ?bm = Some (scoreTabForProject DEFAULT_MATCHER_CONFIG now tab p (Some ctx))
         \<and> asg_projectId a = proj_projectId p
         \<and> asg_confidence a = res_score (scoreTabForProject DEFAULT_MATCHER_CONFIG now tab p (Some ctx))
         \<and> asg_confidence a
             = 3.0 * scoreHostMatch tab p + 2.0 * scorePathMatch tab p
               + 1.5 * scoreTokenSimilarity tab p + 2.0 * scoreChainProximity tab p (Some ctx)
               + 1.0 * scoreRecencyBoost now p (Some ctx)
         \<and> 0.5 < asg_confidence a
         \<and> (asg_method a = Deterministic) = (0.8 < asg_confidence a)"
      using p by (intro bexI[of _ p]) (simp_all add: res_score_default)
    moreover have "asg_method a \<noteq> Manual" "asg_method a \<noteq> Default" "asg_method a \<noteq> Context"
      using p(7) by auto
    ultimately show ?thesis by blast
  next
    case False
    then have "?simple" using cases by blast
    then show ?thesis by auto
  qed
qed

theorem assignment_confidence_witness:
  "asg_method (fst (assignTabToProject 3600000 ''r1'' ''r2'' (exTab ''github.com'') 1
       (exState [exProject ''p1'' [exRule Host ''github.com''] 0]))) = Deterministic
   \<and> asg_confidence (fst (assignTabToProject 3600000 ''r1'' ''r2'' (exTab ''github.com'') 1
       (exState [exProject ''p1'' [exRule Host ''github.com''] 0]))) = 3.0
   \<and> asg_method (fst (assignTabToProject 400000 ''r1'' ''r2'' (exTab ''github.com'') 1
       (exState [exProject ''p1'' [] 0]))) = Semantic
   \<and> asg_confidence (fst (assignTabToProject 400000 ''r1'' ''r2'' (exTab ''github.com'') 1
       (exState [exProject ''p1'' [] 0]))) = 0.6
   \<and> asg_method (fst (assignTabToProject 0 ''r1'' ''r2''
        ((exTab ''github.com'')\<lparr>tab_projectId := Some ''p1'', tab_manuallyAssigned := Some True\<rparr>) 1
        (exState [exProject ''p1'' [exRule Host ''github.com''] 0]))) = Manual
   \<and> asg_confidence (fst (assignTabToProject 0 ''r1'' ''r2''
        ((exTab ''github.com'')\<lparr>tab_projectId := Some ''p1'', tab_manuallyAssigned := Some True\<rparr>) 1
        (exState [exProject ''p1'' [exRule Host ''github.com''] 0]))) = 1
   \<and> asg_method (fst (assignTabToProject 0 ''r1'' ''r2'' (exTab ''github.com'') 1 (exState [])))
       = Default
   \<and> asg_confidence (fst (assignTabToProject 0 ''r1'' ''r2'' (exTab ''github.com'') 1 (exState [])))
       = 1"
proof -
  let ?tab = "exTab ''github.com''"
  let ?pA = "exProject ''p1'' [exRule Host ''github.com''] 0"
  let ?pS = "exProject ''p1'' [] 0"
  let ?man = "(exTab ''github.com'')\<lparr>tab_projectId := Some ''p1'', tab_manuallyAssigned := Some True\<rparr>"
  have nm: "\<not> (tab_manuallyAssigned ?tab = Some True \<and> truthy (tab_projectId ?tab))"
    by (simp add: exTab_def)
  have dA: "db_projects (exState [?pA]) = [?pA]" and dS: "db_projects (exState [?pS]) = [?pS]"
    by (simp_all add: exState_def)
  have mA: "asg_method (fst (assignTabToProject 3600000 ''r1'' ''r2'' ?tab 1 (exState [?pA]))) = Deterministic"
    using assign_single_project_conf[OF nm dA, of 3600000 1 "''r1''" "''r2''"]
    by (simp add: res_score_default exTab_github_scores)
  have sS: "res_score (scoreTabForProject DEFAULT_MATCHER_CONFIG 400000 ?tab ?pS
      (Some (fst (updateContext 400000 1 ?tab (exState [?pS]))))) = 0.6"
    by (simp add: score_defs updateContext_def getTabsByWindow_def sort_desc_def ex_defs)
  have mS: "asg_method (fst (assignTabToProject 400000 ''r1'' ''r2'' ?tab 1 (exState [?pS]))) = Semantic"
    using assign_single_project_conf[OF nm dS, of 400000 1 "''r1''" "''r2''"] by (simp add: sS)
  have mM: "asg_method (fst (assignTabToProject 0 ''r1'' ''r2'' ?man 1 (exState [?pA]))) = Manual"
    by (simp add: assignTabToProject_def)
  have mD: "asg_method (fst (assignTabToProject 0 ''r1'' ''r2'' ?tab 1 (exState []))) = Default"
    using assignNewProject_fst[of 0 "''r1''" "''r2''" ?tab "exState []"]
    by (simp add: assignTabToProject_def getAllProjects_def exState_def exTab_def)
  have cA: "asg_confidence (fst (assignTabToProject 3600000 ''r1'' ''r2'' ?tab 1 (exState [?pA]))) = 3.0"
    using assignment_confidence[of 3600000 "''r1''" "''r2''" ?tab 1 "exState [?pA]"] mA
    by (simp add: dA exTab_github_scores)
  have cS: "asg_confidence (fst (assignTabToProject 400000 ''r1'' ''r2'' ?tab 1 (exState [?pS]))) = 0.6"
    using assignment_confidence[of 400000 "''r1''" "''r2''" ?tab 1 "exState [?pS]"] mS sS
    by (simp add: dS)
  have cM: "asg_confidence (fst (assignTabToProject 0 ''r1'' ''r2'' ?man 1 (exState [?pA]))) = 1"
    using assignment_confidence[of 0 "''r1''" "''r2''" ?man 1 "exState [?pA]"] mM by simp
  have cD: "asg_confidence (fst (assignTabToProject 0 ''r1'' ''r2'' ?tab 1 (exState []))) = 1"
    using assignment_confidence[of 0 "''r1''" "''r2''" ?tab 1 "exState []"] mD by simp
  show ?thesis
    by (intro conjI mA mS mM mD cA cS cM cD)
qed

text \<open>
  C10 as stated fails in its bound of 9.5: the stored tab of the state below was last
  active after the reading of the clock, so its recency score is 11 and its weight 4; the
  chain proximity of the project is \<open>4 * 0.8\<close> and the confidence exceeds 9.5.
\<close>

theorem confidence_above_bound:
  "asg_method (fst (assignTabToProject 0 ''r1'' ''r2'' (exTab ''github.com'') 1 exStateAhead))
      = Deterministic
   \<and> scoreChainProximity (exTab ''github.com'') (exProject ''p1'' [exRule Host ''github.com''] 0)
        (Some (fst (updateContext 0 1 (exTab ''github.com'') exStateAhead))) = 4 * 0.8
   \<and> 9.5 < asg_confidence
        (fst (assignTabToProject 0 ''r1'' ''r2'' (exTab ''github.com'') 1 exStateAhead))"
proof -
  let ?tab = "exTab ''github.com''"
  let ?p = "exProject ''p1'' [exRule Host ''github.com''] 0"
  let ?ctx = "Some (fst (updateContext 0 1 ?tab exStateAhead))"
  have nm: "\<not> (tab_manuallyAssigned ?tab = Some True \<and> truthy (tab_projectId ?tab))"
    by (simp add: exTab_def)
  have d: "db_projects exStateAhead = [?p]" by (simp add: exStateAhead_def)
  have c: "scoreChainProximity ?tab ?p ?ctx = 4 * 0.8"
    unfolding exStateAhead_context by (simp add: scoreChainProximity_def exProject_def)
  have s: "res_score (scoreTabForProject DEFAULT_MATCHER_CONFIG 0 ?tab ?p ?ctx) = 10.3"
    unfolding res_score_default c
    unfolding exStateAhead_context
    by (simp add: scoreHostMatch_def scorePathMatch_def scoreTokenSimilarity_def
        weightedTokenSimilarity_def cosineSimilarity_def jaccardSimilarity_def
        scoreRecencyBoost_def Let_def ex_defs)
  have "0.5 < res_score (scoreTabForProject DEFAULT_MATCHER_CONFIG 0 ?tab ?p ?ctx)"
    unfolding s by simp
  from assign_single_project_conf[OF nm d this, of "''r1''" "''r2''"] c s
  show ?thesis by simp
qed


end
